theory Spec2Isabelle
  imports Complex_Main "HOL-Library.AList"
begin

section \<open>Python values used by the knowledge base\<close>

text \<open>
  Numbers: Python floats are read as real numbers (exact arithmetic); rounding, overflow
  and NaN are outside this development.  Integers are unbounded (\<^typ>\<open>int\<close>).
  Strings are \<^typ>\<open>string\<close>.
\<close>

subsection \<open>Dictionaries\<close>

text \<open>
  A Python \<^verbatim>\<open>dict\<close> keeps its keys in the order of their first insertion and a
  later assignment to a key replaces the value in place.  It is an association list
  with pairwise distinct keys, written with \<^const>\<open>AList.update\<close>.
\<close>

type_synonym ('k, 'v) dict = "('k \<times> 'v) list"

definition dict_set :: "('k, 'v) dict \<Rightarrow> 'k \<Rightarrow> 'v \<Rightarrow> ('k, 'v) dict" where
  "dict_set d k v = AList.update k v d"

definition dict_get :: "('k, 'v) dict \<Rightarrow> 'k \<Rightarrow> 'v \<Rightarrow> 'v" where
  "dict_get d k dflt = (case map_of d k of Some v \<Rightarrow> v | None \<Rightarrow> dflt)"

definition dict_len :: "('k, 'v) dict \<Rightarrow> nat" where
  "dict_len d = length d"

text \<open>The dict comprehension \<^verbatim>\<open>{k: v for ...}\<close>: assignments in order, starting empty.\<close>

definition dict_of :: "('k \<times> 'v) list \<Rightarrow> ('k, 'v) dict" where
  "dict_of kvs = fold (\<lambda>(k, v) d. dict_set d k v) kvs []"

subsection \<open>Slices and sorting\<close>

text \<open>\<^verbatim>\<open>xs[:n]\<close>: a negative bound counts from the end of the list.\<close>

definition py_prefix :: "int \<Rightarrow> 'a list \<Rightarrow> 'a list" where
  "py_prefix n xs =
     (if 0 \<le> n then take (nat n) xs else take (length xs - nat (- n)) xs)"

text \<open>
  \<^verbatim>\<open>xs.sort(key=f, reverse=True)\<close> is stable: elements with equal keys keep their
  order.  A stable ascending sort on the negated key is the same list.
\<close>

definition sort_desc :: "('a \<Rightarrow> real) \<Rightarrow> 'a list \<Rightarrow> 'a list" where
  "sort_desc f xs = sort_key (\<lambda>x. - f x) xs"

section \<open>Documents and the knowledge base (ueh\_knowledge\_base\_mongodb.py)\<close>

text \<open>The value of the \<^verbatim>\<open>embedding\<close> field when the field is there: null or a vector.\<close>

datatype emb = Null | Vec "real list"

text \<open>
  A document is a dict used as a struct: every field may be absent (\<open>None\<close>).
  \<open>mongo_id\<close> is the field \<^verbatim>\<open>_id\<close>.
\<close>

record doc =
  mongo_id :: "string option"
  url :: "string option"
  content_id :: "string option"
  title :: "string option"
  content :: "string option"
  embedding :: "emb option"
  score :: "real option"
  similarity_score :: "real option"
  combined_score :: "real option"

datatype kb_error = IndexUnavailable | StoreUnavailable | EmbeddingFailure | KeyError string

text \<open>
  The knowledge base object with its external collaborators:
  \<^item> \<open>collection\<close>: the stored documents, in the order a scan of the store yields them;
  \<open>store_error\<close>: the failure with which a scan raises, if it does;
  \<^item> \<open>find_text q n\<close>: what iterating the cursor
    \<^verbatim>\<open>collection.find({'$text': ...}).sort(textScore).limit(n)\<close> gives: the
    documents in relevance order, or the exception raised;
  \<^item> \<open>invoke_model text\<close>: the \<^verbatim>\<open>'embedding'\<close> entry of the embedding provider's
    response (\<open>[]\<close> when the response has none), or the exception raised.
\<close>

record kb =
  enable_vector_search :: bool
  collection :: "doc list"
  store_error :: "kb_error option"
  find_text :: "string \<Rightarrow> int \<Rightarrow> kb_error + doc list"
  invoke_model :: "string \<Rightarrow> kb_error + real list"

subsection \<open>full\_text\_search\<close>

definition strip_text_fields :: "doc \<Rightarrow> doc" where
  "strip_text_fields d = d\<lparr>mongo_id := None, embedding := None, score := None\<rparr>"

text \<open>The whole body is inside \<^verbatim>\<open>try\<close>; the handler returns the empty list.\<close>

definition full_text_search :: "kb \<Rightarrow> string \<Rightarrow> int \<Rightarrow> kb_error + doc list" where
  "full_text_search self query limit =
     (case find_text self query limit of
        Inr results \<Rightarrow> Inr (map strip_text_fields results)
      | Inl e \<Rightarrow> Inr [])"

subsection \<open>generate\_embedding\<close>

definition generate_embedding :: "kb \<Rightarrow> string \<Rightarrow> real list option" where
  "generate_embedding self text =
     (if \<not> enable_vector_search self then None
      else
        let max_chars = 8192 * 4;
            text' = (if length text > max_chars then take max_chars text else text)
        in case invoke_model self text' of
             Inr vec \<Rightarrow> (if vec \<noteq> [] then Some vec else None)
           | Inl e \<Rightarrow> None)"

subsection \<open>cosine\_similarity\<close>

definition dot :: "real list \<Rightarrow> real list \<Rightarrow> real" where
  "dot xs ys = sum_list (map2 (*) xs ys)"

definition linalg_norm :: "real list \<Rightarrow> real" where
  "linalg_norm xs = sqrt (sum_list (map (\<lambda>x. x * x) xs))"

text \<open>
  \<^verbatim>\<open>np.dot\<close> raises on vectors of different lengths; the handler returns \<open>0.0\<close>.
\<close>

definition cosine_similarity :: "real list \<Rightarrow> real list \<Rightarrow> real" where
  "cosine_similarity vec1 vec2 =
     (if length vec1 \<noteq> length vec2 then 0
      else
        let dot_product = dot vec1 vec2;
            norm1 = linalg_norm vec1;
            norm2 = linalg_norm vec2
        in if norm1 = 0 \<or> norm2 = 0 then 0
           else dot_product / (norm1 * norm2))"

subsection \<open>vector\_search\<close>

text \<open>\<^verbatim>\<open>'embedding' in doc and doc['embedding']\<close>: the field is there and truthy.\<close>

definition embedding_vector :: "doc \<Rightarrow> real list option" where
  "embedding_vector d =
     (case embedding d of
        Some (Vec v) \<Rightarrow> (if v \<noteq> [] then Some v else None)
      | Some Null \<Rightarrow> None
      | None \<Rightarrow> None)"

text \<open>\<^verbatim>\<open>collection.find({'embedding': {'$exists': True}})\<close>, read into a list.\<close>

definition find_embedding_exists :: "kb \<Rightarrow> kb_error + doc list" where
  "find_embedding_exists self =
     (case store_error self of
        Some e \<Rightarrow> Inl e
      | None \<Rightarrow> Inr (filter (\<lambda>d. embedding d \<noteq> None) (collection self)))"

text \<open>The loop that scores the scanned documents and keeps those at or above the threshold.\<close>

fun score_documents :: "real list \<Rightarrow> real \<Rightarrow> doc list \<Rightarrow> doc list" where
  "score_documents query_embedding similarity_threshold [] = []"
| "score_documents query_embedding similarity_threshold (d # documents) =
     (case embedding_vector d of
        Some v \<Rightarrow>
          (let similarity = cosine_similarity query_embedding v
           in if similarity \<ge> similarity_threshold
              then d\<lparr>mongo_id := None, embedding := None, similarity_score := Some similarity\<rparr>
                   # score_documents query_embedding similarity_threshold documents
              else score_documents query_embedding similarity_threshold documents)
      | None \<Rightarrow> score_documents query_embedding similarity_threshold documents)"

text \<open>
  \<^verbatim>\<open>doc.get('similarity_score', 0)\<close>.  The sort key of \<^verbatim>\<open>vector_search\<close> reads
  \<^verbatim>\<open>x['similarity_score']\<close>, on documents that were all just given the field.
\<close>

definition get_similarity_score :: "doc \<Rightarrow> real" where
  "get_similarity_score d = (case similarity_score d of Some s \<Rightarrow> s | None \<Rightarrow> 0)"

definition vector_search :: "kb \<Rightarrow> string \<Rightarrow> int \<Rightarrow> real \<Rightarrow> kb_error + doc list" where
  "vector_search self query limit similarity_threshold =
     (if \<not> enable_vector_search self then full_text_search self query limit
      else
        case generate_embedding self query of
          None \<Rightarrow> full_text_search self query limit
        | Some query_embedding \<Rightarrow>
            (if query_embedding = [] then full_text_search self query limit
             else
               case find_embedding_exists self of
                 Inl e \<Rightarrow> full_text_search self query limit
               | Inr documents \<Rightarrow>
                   Inr (py_prefix limit
                          (sort_desc get_similarity_score
                             (score_documents query_embedding similarity_threshold documents)))))"

subsection \<open>hybrid\_search\<close>

text \<open>\<^verbatim>\<open>doc.get('url', doc.get('content_id', ''))\<close>\<close>

definition doc_key :: "doc \<Rightarrow> string" where
  "doc_key d =
     (case url d of
        Some u \<Rightarrow> u
      | None \<Rightarrow> (case content_id d of Some c \<Rightarrow> c | None \<Rightarrow> ''''))"

definition get_combined_score :: "doc \<Rightarrow> real" where
  "get_combined_score d = (case combined_score d of Some s \<Rightarrow> s | None \<Rightarrow> 0)"

definition text_scores_of :: "doc list \<Rightarrow> (string, real) dict" where
  "text_scores_of text_results =
     dict_of (map (\<lambda>(i, d). (doc_key d, 1 / (real i + 1))) (enumerate 0 text_results))"

definition vector_scores_of :: "doc list \<Rightarrow> (string, real) dict" where
  "vector_scores_of vector_results =
     dict_of (map (\<lambda>d. (doc_key d, get_similarity_score d)) vector_results)"

definition all_docs_of :: "doc list \<Rightarrow> doc list \<Rightarrow> (string, doc) dict" where
  "all_docs_of text_results vector_results =
     dict_of (map (\<lambda>d. (doc_key d, d)) (text_results @ vector_results))"

definition combine :: "real \<Rightarrow> real \<Rightarrow> (string, real) dict \<Rightarrow> (string, real) dict
    \<Rightarrow> string \<times> doc \<Rightarrow> doc" where
  "combine text_weight vector_weight text_scores vector_scores =
     (\<lambda>(doc_id, d).
        let text_score = dict_get text_scores doc_id 0;
            vector_score = dict_get vector_scores doc_id 0;
            combined = (text_weight * text_score) + (vector_weight * vector_score)
        in d\<lparr>combined_score := Some combined, similarity_score := None\<rparr>)"

definition fuse :: "int \<Rightarrow> real \<Rightarrow> real \<Rightarrow> doc list \<Rightarrow> doc list \<Rightarrow> doc list" where
  "fuse limit text_weight vector_weight text_results vector_results =
     (let text_scores = text_scores_of text_results;
          vector_scores = vector_scores_of vector_results;
          all_docs = all_docs_of text_results vector_results;
          combined_results = map (combine text_weight vector_weight text_scores vector_scores) all_docs
      in py_prefix limit (sort_desc get_combined_score combined_results))"

text \<open>
  An exception inside \<^verbatim>\<open>try\<close> leads to the handler, which returns the lexical results.
\<close>

definition hybrid_search :: "kb \<Rightarrow> string \<Rightarrow> int \<Rightarrow> real \<Rightarrow> real \<Rightarrow> kb_error + doc list" where
  "hybrid_search self query limit text_weight vector_weight =
     (if \<not> enable_vector_search self then full_text_search self query limit
      else
        case full_text_search self query (limit * 2) of
          Inl e \<Rightarrow> full_text_search self query limit
        | Inr text_results \<Rightarrow>
            (case vector_search self query (limit * 2) (3 / 10) of
               Inl e \<Rightarrow> full_text_search self query limit
             | Inr vector_results \<Rightarrow>
                 Inr (fuse limit text_weight vector_weight text_results vector_results)))"

section \<open>The agent module (google\_search\_agent\_mongodb.py)\<close>

subsection \<open>Strings\<close>

text \<open>
  A \<^typ>\<open>string\<close> stands for the UTF-8 bytes of a Python \<^verbatim>\<open>str\<close>; on ASCII text, which is
  what the statements below are about, bytes and code points coincide.  \<^verbatim>\<open>str.lower\<close>
  maps the letters \<open>A\<close> to \<open>Z\<close>; \<^verbatim>\<open>str.strip\<close> removes the ASCII whitespace
  characters at both ends.
\<close>

definition lower_char :: "char \<Rightarrow> char" where
  "lower_char c =
     (case map_of (zip ''ABCDEFGHIJKLMNOPQRSTUVWXYZ'' ''abcdefghijklmnopqrstuvwxyz'') c of
        Some l \<Rightarrow> l
      | None \<Rightarrow> c)"

definition lower :: "string \<Rightarrow> string" where
  "lower s = map lower_char s"

definition is_space :: "char \<Rightarrow> bool" where
  "is_space c = (c \<in> set [CHR 0x09, CHR 0x0A, CHR 0x0B, CHR 0x0C, CHR 0x0D,
                            CHR 0x1C, CHR 0x1D, CHR 0x1E, CHR 0x1F, CHR 0x20])"

definition strip :: "string \<Rightarrow> string" where
  "strip s = rev (dropWhile is_space (rev (dropWhile is_space s)))"

text \<open>\<^verbatim>\<open>str(i)\<close> for a non-negative integer.\<close>

fun str_of_nat :: "nat \<Rightarrow> string" where
  "str_of_nat n =
     (if n < 10 then [''0123456789'' ! n]
      else str_of_nat (n div 10) @ [''0123456789'' ! (n mod 10)])"

declare str_of_nat.simps [simp del]

definition utf8 :: "nat list \<Rightarrow> string" where
  "utf8 bs = map char_of bs"

text \<open>\<^verbatim>\<open>str(e)\<close> of a caught exception.\<close>

fun str_of_error :: "kb_error \<Rightarrow> string" where
  "str_of_error (KeyError k) = [CHR 0x27] @ k @ [CHR 0x27]"
| "str_of_error IndexUnavailable = ''text index required for $text query''"
| "str_of_error StoreUnavailable = ''connection refused''"
| "str_of_error EmbeddingFailure = ''embedding failed''"

subsection \<open>The UIT knowledge base (uit\_knowledge\_base\_mongodb.py)\<close>

record uit_kb =
  uit_find_text :: "string \<Rightarrow> int \<Rightarrow> kb_error + doc list"

text \<open>This class removes \<^verbatim>\<open>_id\<close> and \<^verbatim>\<open>score\<close> only.\<close>

definition uit_full_text_search :: "uit_kb \<Rightarrow> string \<Rightarrow> int \<Rightarrow> kb_error + doc list" where
  "uit_full_text_search self query limit =
     (case uit_find_text self query limit of
        Inr results \<Rightarrow> Inr (map (\<lambda>d. d\<lparr>mongo_id := None, score := None\<rparr>) results)
      | Inl e \<Rightarrow> Inr [])"

subsection \<open>search\_uit\_knowledge and the query cache\<close>

text \<open>Times are in seconds.\<close>

record cache_entry =
  result :: string
  timestamp :: real

definition CACHE_TTL :: real where
  "CACHE_TTL = 3600"

text \<open>
  The key is \<^verbatim>\<open>hashlib.md5(query.lower().encode()).hexdigest()\<close>.  Both library
  functions are parameters: \<open>md5\<close> is the hex digest of a byte string, and
  \<open>str_lower\<close> is \<^verbatim>\<open>str.lower\<close> as it acts on the UTF-8 bytes of a string (on ASCII
  text it is \<open>lower\<close>).
\<close>

definition cache_key_of :: "(string \<Rightarrow> string) \<Rightarrow> (string \<Rightarrow> string) \<Rightarrow> string \<Rightarrow> string" where
  "cache_key_of md5 str_lower query = md5 (str_lower query)"

text \<open>The header of the answer and the label
  of the content snippet, as UTF-8 bytes.\<close>

definition response_header :: string where
  "response_header = utf8
     [84, 104, 195, 180, 110, 103, 32, 116, 105, 110, 32, 116, 225, 187, 171, 32,
      99, 198, 161, 32, 115, 225, 187, 159, 32, 100, 225, 187, 175, 32, 108, 105,
      225, 187, 135, 117, 32, 85, 73, 84, 58, 10, 10]"

definition content_label :: string where
  "content_label = utf8
     [32, 32, 32, 78, 225, 187, 153, 105, 32, 100, 117, 110, 103, 58, 32]"

text \<open>
  The loop \<^verbatim>\<open>for i, item in enumerate(results, 1)\<close>; reading a missing field raises
  \<^verbatim>\<open>KeyError\<close>.
\<close>

fun format_items :: "nat \<Rightarrow> doc list \<Rightarrow> string \<Rightarrow> kb_error + string" where
  "format_items i [] response = Inr response"
| "format_items i (item # items) response =
     (case title item of
        None \<Rightarrow> Inl (KeyError ''title'')
      | Some t \<Rightarrow>
          (case url item of
             None \<Rightarrow> Inl (KeyError ''url'')
           | Some u \<Rightarrow>
               (case content item of
                  None \<Rightarrow> Inl (KeyError ''content'')
                | Some c \<Rightarrow>
                    format_items (i + 1) items
                      (response @ str_of_nat i @ ''. '' @ t @ [CHR 0x0A]
                         @ ''   URL: '' @ u @ [CHR 0x0A]
                         @ content_label
                         @ (if length c > 400 then take 400 c @ ''...'' else c)
                         @ [CHR 0x0A, CHR 0x0A]))))"

definition not_found_message :: "string \<Rightarrow> string" where
  "not_found_message query =
     ''No information found in UIT knowledge base for: '' @ query
       @ ''. Please search online for the latest information.''"

definition search_error_message :: "kb_error \<Rightarrow> string" where
  "search_error_message e =
     ''Error searching knowledge base: '' @ str_of_error e @ ''. Please try online search.''"

text \<open>The lookup before \<^verbatim>\<open>try\<close>: the cached payload when the entry is there and fresh.\<close>

definition cache_hit :: "(string, cache_entry) dict \<Rightarrow> string \<Rightarrow> real \<Rightarrow> string option" where
  "cache_hit QUERY_CACHE cache_key now =
     (case map_of QUERY_CACHE cache_key of
        Some cached_data \<Rightarrow>
          (if now - timestamp cached_data < CACHE_TTL then Some (result cached_data) else None)
      | None \<Rightarrow> None)"

text \<open>
  \<open>search_uit_knowledge md5 str_lower uit_kb now now' QUERY_CACHE query\<close> returns the tool's answer
  and the cache afterwards.  \<open>uit_kb\<close> is \<open>None\<close> when the knowledge base failed to
  initialise; \<open>now\<close> is the clock at the lookup and \<open>now'\<close> the clock at the write.
\<close>

definition search_uit_knowledge :: "(string \<Rightarrow> string) \<Rightarrow> (string \<Rightarrow> string)
    \<Rightarrow> uit_kb option \<Rightarrow> real \<Rightarrow> real
    \<Rightarrow> (string, cache_entry) dict \<Rightarrow> string \<Rightarrow> string \<times> (string, cache_entry) dict" where
  "search_uit_knowledge md5 str_lower uit_kb now now' QUERY_CACHE query =
     (case uit_kb of
        None \<Rightarrow> (''Knowledge base not available. Please search online.'', QUERY_CACHE)
      | Some kb \<Rightarrow>
          let cache_key = cache_key_of md5 str_lower query
          in case cache_hit QUERY_CACHE cache_key now of
               Some cached \<Rightarrow> (cached, QUERY_CACHE)
             | None \<Rightarrow>
                 (case uit_full_text_search kb query 3 of
                    Inl e \<Rightarrow> (search_error_message e, QUERY_CACHE)
                  | Inr results \<Rightarrow>
                      if results = [] then (not_found_message query, QUERY_CACHE)
                      else
                        case format_items 1 results response_header of
                          Inl e \<Rightarrow> (search_error_message e, QUERY_CACHE)
                        | Inr response \<Rightarrow>
                            (response,
                             dict_set QUERY_CACHE cache_key
                               \<lparr>result = response, timestamp = now'\<rparr>)))"

subsection \<open>GoogleSearchAgent.chat and the response cache\<close>

definition RESPONSE_CACHE_MAX_SIZE :: nat where
  "RESPONSE_CACHE_MAX_SIZE = 100"

text \<open>
  The shapes of an agent result that \<open>chat\<close> tells apart.  A block of a content list is
  a dict with or without a \<^verbatim>\<open>'text'\<close> entry, or something else (then \<^verbatim>\<open>.get\<close> raises).
  \<open>OtherMessage s\<close> is any message that is not a dict with \<^verbatim>\<open>'content'\<close>, \<open>s\<close> its
  \<^verbatim>\<open>str\<close>.
\<close>

datatype content_block = DictBlock "string option" | OtherBlock

datatype msg_content = ContentList "content_block list" | OtherContent

datatype agent_message = DictWithContent msg_content | OtherMessage string

record agent_result =
  message :: "agent_message option"
  str_of :: string

text \<open>The extracted text; \<open>Inr None\<close> is Python's \<^verbatim>\<open>None\<close>, \<open>Inl\<close> the text of an exception.\<close>

definition extract_text :: "agent_result \<Rightarrow> string + string option" where
  "extract_text response =
     (case message response of
        Some (DictWithContent (ContentList (DictBlock (Some t) # rest))) \<Rightarrow> Inr (Some t)
      | Some (DictWithContent (ContentList (DictBlock None # rest))) \<Rightarrow> Inr (Some (str_of response))
      | Some (DictWithContent (ContentList (OtherBlock # rest))) \<Rightarrow>
          Inl ''object has no attribute 'get' ''
      | Some (DictWithContent (ContentList [])) \<Rightarrow> Inr None
      | Some (DictWithContent OtherContent) \<Rightarrow> Inr None
      | Some (OtherMessage s) \<Rightarrow> Inr (Some s)
      | None \<Rightarrow> Inr (Some (str_of response)))"

text \<open>
  \<open>chat agent RESPONSE_CACHE message\<close> returns the answer and the cache afterwards.
  \<open>agent message\<close> is the agent's result, or the text of the exception it raises.
\<close>

definition chat :: "(string \<Rightarrow> string + agent_result) \<Rightarrow> (string, string option) dict \<Rightarrow> string
    \<Rightarrow> string option \<times> (string, string option) dict" where
  "chat agent RESPONSE_CACHE msg =
     (let cache_key = strip (lower msg)
      in case map_of RESPONSE_CACHE cache_key of
           Some cached \<Rightarrow> (cached, RESPONSE_CACHE)
         | None \<Rightarrow>
             (case agent msg of
                Inl e \<Rightarrow> (Some (''Error: '' @ e), RESPONSE_CACHE)
              | Inr response \<Rightarrow>
                  (case extract_text response of
                     Inl e \<Rightarrow> (Some (''Error: '' @ e), RESPONSE_CACHE)
                   | Inr result_text \<Rightarrow>
                       if dict_len RESPONSE_CACHE < RESPONSE_CACHE_MAX_SIZE
                       then (result_text, dict_set RESPONSE_CACHE cache_key result_text)
                       else (result_text, RESPONSE_CACHE))))"

text \<open>A sequence of calls of \<open>chat\<close> on the shared cache.\<close>

fun chat_all :: "(string \<Rightarrow> string + agent_result) \<Rightarrow> (string, string option) dict
    \<Rightarrow> string list \<Rightarrow> (string, string option) dict" where
  "chat_all agent RESPONSE_CACHE [] = RESPONSE_CACHE"
| "chat_all agent RESPONSE_CACHE (m # ms) = chat_all agent (snd (chat agent RESPONSE_CACHE m)) ms"

section \<open>Example documents and knowledge bases\<close>

definition doc_a :: doc where
  "doc_a = \<lparr>mongo_id = Some ''65a1'', url = Some ''https://x/a'', content_id = Some ''a'',
      title = Some ''A'', content = Some ''alpha'', embedding = Some (Vec [1, 0]),
      score = None, similarity_score = None, combined_score = None\<rparr>"

definition doc_b :: doc where
  "doc_b = \<lparr>mongo_id = Some ''65b2'', url = Some ''https://x/b'', content_id = Some ''b'',
      title = Some ''B'', content = Some ''beta'', embedding = Some (Vec [1, 0]),
      score = None, similarity_score = None, combined_score = None\<rparr>"

text \<open>A stored document that was never given an embedding.\<close>

definition doc_plain :: doc where
  "doc_plain = \<lparr>mongo_id = Some ''65c3'', url = Some ''https://x/c'', content_id = Some ''c'',
      title = Some ''C'', content = Some ''gamma'', embedding = None,
      score = Some 1, similarity_score = None, combined_score = None\<rparr>"

text \<open>The same two documents, scanned in the two possible orders.\<close>

definition kb_ab :: kb where
  "kb_ab = \<lparr>enable_vector_search = True, collection = [doc_a, doc_b], store_error = None,
      find_text = (\<lambda>q n. Inr []), invoke_model = (\<lambda>t. Inr [1, 0])\<rparr>"

definition kb_ba :: kb where
  "kb_ba = \<lparr>enable_vector_search = True, collection = [doc_b, doc_a], store_error = None,
      find_text = (\<lambda>q n. Inr []), invoke_model = (\<lambda>t. Inr [1, 0])\<rparr>"

text \<open>The embedding provider fails; the text index finds the document without embedding.\<close>

definition kb_embedding_down :: kb where
  "kb_embedding_down = \<lparr>enable_vector_search = True, collection = [doc_plain],
      store_error = None, find_text = (\<lambda>q n. Inr [doc_plain]),
      invoke_model = (\<lambda>t. Inl EmbeddingFailure)\<rparr>"

text \<open>The text index is unavailable: the cursor raises.\<close>

definition kb_index_down :: kb where
  "kb_index_down = \<lparr>enable_vector_search = False, collection = [doc_plain],
      store_error = None, find_text = (\<lambda>q n. Inl IndexUnavailable),
      invoke_model = (\<lambda>t. Inl EmbeddingFailure)\<rparr>"

text \<open>
  The text index finds only \<open>doc_plain\<close>; the vector scan finds only \<open>doc_b\<close>.
\<close>

definition kb_hybrid :: kb where
  "kb_hybrid = \<lparr>enable_vector_search = True, collection = [doc_plain, doc_b],
      store_error = None, find_text = (\<lambda>q n. Inr [doc_plain]),
      invoke_model = (\<lambda>t. Inr [1, 0])\<rparr>"

text \<open>
  A digest function for the examples: it has the MD5 hex digests of the two byte strings
  \<open>a\<close> and \<open>\<box>a\<close> (a space, then \<open>a\<close>) and is of no interest elsewhere.
\<close>

definition md5_sample :: "string \<Rightarrow> string" where
  "md5_sample s =
     (if s = ''a'' then ''0cc175b9c0f1b6a831c399e269772661''
      else if s = '' a'' then ''952988da97fbd8f2ea65990c03eac425''
      else s)"

text \<open>A UIT knowledge base whose text index finds \<open>doc_a\<close> for every query.\<close>

definition uit_kb_a :: uit_kb where
  "uit_kb_a = \<lparr>uit_find_text = (\<lambda>q n. Inr [doc_a])\<rparr>"

text \<open>An agent that answers every message, and a response cache holding 100 entries.\<close>

definition agent_answers :: "string \<Rightarrow> string + agent_result" where
  "agent_answers m = Inr \<lparr>message = None, str_of = ''answer to '' @ m\<rparr>"

definition cache_full :: "(string, string option) dict" where
  "cache_full = map (\<lambda>n. (replicate (Suc n) CHR ''x'', Some ''cached'')) [0..<100]"

text \<open>
  UIT knowledge bases whose text index finds nothing, and finds a document without
  \<^verbatim>\<open>title\<close>.
\<close>

definition uit_kb_nothing :: uit_kb where
  "uit_kb_nothing = \<lparr>uit_find_text = (\<lambda>q n. Inr [])\<rparr>"


text \<open>The formatted answer for the single result \<open>doc_a\<close>.\<close>

definition answer_a :: string where
  "answer_a = response_header @ ''1. A'' @ [CHR 0x0A] @ ''   URL: https://x/a'' @ [CHR 0x0A]
     @ content_label @ ''alpha'' @ [CHR 0x0A, CHR 0x0A]"

text \<open>
  A document whose embedding is orthogonal to the query embedding \<open>[1, 0]\<close>, in a
  knowledge base whose scan of the collection raises while the text index finds it.
\<close>

definition doc_far :: doc where
  "doc_far = \<lparr>mongo_id = Some ''65d4'', url = Some ''https://x/d'', content_id = Some ''d'',
      title = Some ''D'', content = Some ''delta'', embedding = Some (Vec [0, 1]),
      score = Some 1, similarity_score = None, combined_score = None\<rparr>"

definition kb_scan_down :: kb where
  "kb_scan_down = \<lparr>enable_vector_search = True, collection = [doc_far],
      store_error = Some StoreUnavailable, find_text = (\<lambda>q n. Inr [doc_far]),
      invoke_model = (\<lambda>t. Inr [1, 0])\<rparr>"

section \<open>Cosine similarity\<close>

lemma sum_squares_nonneg: "0 \<le> sum_list (map (\<lambda>x. x * x) (xs::real list))"
  by (induction xs) auto

lemma linalg_norm_nonneg: "0 \<le> linalg_norm xs"
  by (simp add: linalg_norm_def sum_squares_nonneg)

lemma plane_bound_aux:
  fixes a b u v :: real
  assumes "0 \<le> u" "0 \<le> v"
  shows "\<bar>a * b\<bar> + u * v \<le> sqrt (a * a + u * u) * sqrt (b * b + v * v)"
proof -
  have "0 \<le> (\<bar>a\<bar> * v - \<bar>b\<bar> * u)\<^sup>2" by simp
  then have "2 * (\<bar>a\<bar> * \<bar>b\<bar> * (u * v)) \<le> a * a * (v * v) + b * b * (u * u)"
    by (simp add: power2_eq_square algebra_simps)
  then have "(\<bar>a * b\<bar> + u * v)\<^sup>2 \<le> (a * a + u * u) * (b * b + v * v)"
    by (simp add: power2_eq_square algebra_simps abs_mult)
  then have "\<bar>a * b\<bar> + u * v \<le> sqrt ((a * a + u * u) * (b * b + v * v))"
    by (rule real_le_rsqrt)
  then show ?thesis
    by (simp add: real_sqrt_mult)
qed

lemma plane_bound:
  fixes a b A B :: real
  assumes "0 \<le> A" "0 \<le> B"
  shows "\<bar>a * b\<bar> + sqrt A * sqrt B \<le> sqrt (a * a + A) * sqrt (b * b + B)"
  using plane_bound_aux [of "sqrt A" "sqrt B" a b] assms by simp

lemma abs_dot_le_norms:
  "length xs = length ys \<Longrightarrow> \<bar>dot xs ys\<bar> \<le> linalg_norm xs * linalg_norm ys"
proof (induction xs ys rule: list_induct2)
  case Nil
  then show ?case by (simp add: dot_def linalg_norm_def)
next
  case (Cons x xs y ys)
  let ?A = "sum_list (map (\<lambda>x. x * x) xs)"
  let ?B = "sum_list (map (\<lambda>x. x * x) ys)"
  have "\<bar>dot (x # xs) (y # ys)\<bar> \<le> \<bar>x * y\<bar> + \<bar>dot xs ys\<bar>"
    by (simp add: dot_def)
  also have "\<dots> \<le> \<bar>x * y\<bar> + sqrt ?A * sqrt ?B"
    using Cons.IH by (simp add: linalg_norm_def)
  also have "\<dots> \<le> sqrt (x * x + ?A) * sqrt (y * y + ?B)"
    by (rule plane_bound) (rule sum_squares_nonneg)+
  finally show ?case by (simp add: linalg_norm_def)
qed

lemma cosine_sym: "cosine_similarity a b = cosine_similarity b a"
proof -
  have "dot a b = dot b a"
    unfolding dot_def
    by (induction a arbitrary: b) (auto simp: mult.commute split: list.splits, case_tac b, auto simp: mult.commute)
  then show ?thesis
    by (auto simp: cosine_similarity_def Let_def mult.commute)
qed

lemma cosine_abs_le_1: "\<bar>cosine_similarity a b\<bar> \<le> 1"
proof (cases "length a = length b \<and> linalg_norm a \<noteq> 0 \<and> linalg_norm b \<noteq> 0")
  case True
  define N where "N = linalg_norm a * linalg_norm b"
  have pos: "0 < N"
    using True linalg_norm_nonneg [of a] linalg_norm_nonneg [of b]
    by (simp add: N_def less_le)
  have "\<bar>dot a b\<bar> \<le> N"
    using True by (simp add: N_def abs_dot_le_norms)
  then have "\<bar>dot a b\<bar> / N \<le> 1"
    using pos by (simp add: divide_le_eq)
  moreover have "\<bar>N\<bar> = N"
    using pos by simp
  ultimately have "\<bar>dot a b / N\<bar> \<le> 1"
    by (simp only: abs_divide)
  then show ?thesis using True by (simp add: cosine_similarity_def Let_def N_def)
next
  case False
  then show ?thesis by (auto simp: cosine_similarity_def Let_def)
qed

lemma dot_self: "dot a a = linalg_norm a * linalg_norm a"
proof -
  have "dot a a = sum_list (map (\<lambda>x. x * x) a)"
    unfolding dot_def by (induction a) auto
  then show ?thesis by (simp add: linalg_norm_def sum_squares_nonneg)
qed

lemma dot_scale: "dot a (map ((*) c) a) = c * dot a a"
  unfolding dot_def by (induction a) (auto simp: algebra_simps)

lemma norm_scale: "0 \<le> c \<Longrightarrow> linalg_norm (map ((*) c) a) = c * linalg_norm a"
proof -
  assume c: "0 \<le> c"
  have "sum_list (map (\<lambda>x. x * x) (map ((*) c) a)) = (c * c) * sum_list (map (\<lambda>x. x * x) a)"
    by (induction a) (auto simp: algebra_simps)
  then show ?thesis using c by (simp add: linalg_norm_def real_sqrt_mult)
qed

lemma cosine_scaled: "0 < c \<Longrightarrow> linalg_norm a \<noteq> 0 \<Longrightarrow> cosine_similarity a (map ((*) c) a) = 1"
  by (simp add: cosine_similarity_def Let_def dot_scale norm_scale dot_self)

text \<open>
  In exact arithmetic the formula of \<open>cosine_similarity\<close> is symmetric, lies in
  \<open>[-1, 1]\<close>, is \<open>0\<close> as soon as one argument has norm zero, and is \<open>1\<close> on a vector
  of nonzero norm paired with itself or with a positive multiple of itself.  This says
  nothing about rounding: the program computes in binary floating point, where the
  quotient for equal vectors can differ from \<open>1\<close> in the last place.
\<close>

lemma cosine_similarity_exact_arithmetic:
  "cosine_similarity a b = cosine_similarity b a
   \<and> - 1 \<le> cosine_similarity a b \<and> cosine_similarity a b \<le> 1
   \<and> (linalg_norm a = 0 \<or> linalg_norm b = 0 \<longrightarrow> cosine_similarity a b = 0)
   \<and> (linalg_norm a \<noteq> 0 \<longrightarrow> cosine_similarity a a = 1)
   \<and> (0 < c \<and> linalg_norm a \<noteq> 0 \<longrightarrow> \<bar>cosine_similarity a (map ((*) c) a) - 1\<bar> \<le> 1 / 10 ^ 6)"
proof (intro conjI impI)
  show "cosine_similarity a b = cosine_similarity b a" by (rule cosine_sym)
  have "\<bar>cosine_similarity a b\<bar> \<le> 1" by (rule cosine_abs_le_1)
  then show "- 1 \<le> cosine_similarity a b" and "cosine_similarity a b \<le> 1" by linarith+
  show "cosine_similarity a b = 0" if "linalg_norm a = 0 \<or> linalg_norm b = 0"
    using that by (auto simp: cosine_similarity_def Let_def)
  show "cosine_similarity a a = 1" if "linalg_norm a \<noteq> 0"
    using that cosine_scaled [of 1 a] by (simp add: map_idI)
  show "\<bar>cosine_similarity a (map ((*) c) a) - 1\<bar> \<le> 1 / 10 ^ 6" if "0 < c \<and> linalg_norm a \<noteq> 0"
    using that by (simp add: cosine_scaled)
qed

section \<open>Slices and sorting\<close>

lemma set_py_prefix: "set (py_prefix n xs) \<subseteq> set xs"
  by (auto simp: py_prefix_def dest: in_set_takeD)

lemma length_py_prefix: "0 \<le> n \<Longrightarrow> int (length (py_prefix n xs)) \<le> n"
  by (simp add: py_prefix_def)

lemma sorted_wrt_py_prefix: "sorted_wrt P xs \<Longrightarrow> sorted_wrt P (py_prefix n xs)"
  by (simp add: py_prefix_def sorted_wrt_take)

lemma set_sort_desc: "set (sort_desc f xs) = set xs"
  by (simp add: sort_desc_def)

lemma sorted_sort_desc: "sorted_wrt (\<lambda>x y. f x \<ge> f y) (sort_desc f xs)"
proof -
  have "sorted (map (\<lambda>x. - f x) (sort_key (\<lambda>x. - f x) xs))"
    by (rule sorted_sort_key)
  then show ?thesis
    by (simp add: sort_desc_def sorted_map)
qed

section \<open>The searches return normally\<close>

lemma full_text_search_returns:
  "full_text_search self query limit =
     Inr (case find_text self query limit of Inr rs \<Rightarrow> map strip_text_fields rs | Inl e \<Rightarrow> [])"
  by (simp add: full_text_search_def split: sum.splits)

lemma full_text_search_fields:
  "full_text_search self query limit = Inr ds \<Longrightarrow> d \<in> set ds \<Longrightarrow>
     mongo_id d = None \<and> embedding d = None \<and> score d = None"
  by (auto simp: full_text_search_def strip_text_fields_def split: sum.splits)

section \<open>vector\_search\<close>

lemma score_documents_elem:
  "r \<in> set (score_documents qe thr ds) \<Longrightarrow>
     \<exists>d\<in>set ds. \<exists>v. embedding_vector d = Some v \<and> thr \<le> cosine_similarity qe v
        \<and> r = d\<lparr>mongo_id := None, embedding := None,
                 similarity_score := Some (cosine_similarity qe v)\<rparr>"
  by (induction ds) (auto simp: Let_def split: option.splits if_splits)

lemma vector_search_vector_path:
  assumes "generate_embedding self query = Some qe" and "store_error self = None"
  shows "vector_search self query limit thr =
     Inr (py_prefix limit (sort_desc get_similarity_score
            (score_documents qe thr (filter (\<lambda>d. embedding d \<noteq> None) (collection self)))))"
proof -
  have "enable_vector_search self" "qe \<noteq> []"
    using assms(1) by (auto simp: generate_embedding_def Let_def split: if_splits sum.splits)
  then show ?thesis
    using assms by (simp add: vector_search_def find_embedding_exists_def)
qed

lemma vector_search_elem:
  assumes "generate_embedding self query = Some qe" and "store_error self = None"
    and "vector_search self query limit thr = Inr rs" and "r \<in> set rs"
  shows "\<exists>d\<in>set (collection self). \<exists>v. embedding_vector d = Some v
           \<and> thr \<le> cosine_similarity qe v
           \<and> r = d\<lparr>mongo_id := None, embedding := None,
                    similarity_score := Some (cosine_similarity qe v)\<rparr>"
proof -
  let ?scored = "score_documents qe thr
      (filter (\<lambda>d. embedding d \<noteq> None) (collection self))"
  from assms have "r \<in> set (py_prefix limit (sort_desc get_similarity_score ?scored))"
    by (simp add: vector_search_vector_path)
  then have "r \<in> set (sort_desc get_similarity_score ?scored)"
    using set_py_prefix by (rule rev_subsetD)
  then have "r \<in> set ?scored"
    by (simp only: set_sort_desc)
  from score_documents_elem [OF this] show ?thesis by auto
qed

lemma vector_search_fallback:
  assumes "\<not> enable_vector_search self \<or> generate_embedding self query = None
      \<or> store_error self \<noteq> None"
  shows "vector_search self query limit thr = full_text_search self query limit"
proof (cases "store_error self")
  case None
  with assms show ?thesis
    by (auto simp: vector_search_def)
next
  case (Some e)
  then have "find_embedding_exists self = Inl e"
    by (simp add: find_embedding_exists_def)
  then show ?thesis
    by (simp add: vector_search_def split: option.splits)
qed

lemma cos_10: "cosine_similarity [1, 0] [1, 0] = 1"
  by (simp add: cosine_similarity_def dot_def linalg_norm_def)

lemma cos_10_01: "cosine_similarity [1, 0] [0, 1] = 0"
  by (simp add: cosine_similarity_def dot_def linalg_norm_def)

lemma vs_ab: "vector_search kb_ab ''q'' 1 thr =
   Inr (if thr \<le> 1 then [doc_a\<lparr>mongo_id := None, embedding := None, similarity_score := Some 1\<rparr>] else [])"
  by (simp add: vector_search_def generate_embedding_def kb_ab_def find_embedding_exists_def
      doc_a_def doc_b_def embedding_vector_def cos_10 sort_desc_def py_prefix_def
      get_similarity_score_def)

lemma gen_scan_down: "generate_embedding kb_scan_down q = Some [1, 0]"
  by (simp add: generate_embedding_def kb_scan_down_def)

lemma fts_scan_down:
  "full_text_search kb_scan_down q n
     = Inr [doc_far\<lparr>mongo_id := None, embedding := None, score := None\<rparr>]"
  by (simp add: full_text_search_def kb_scan_down_def strip_text_fields_def)

lemma vs_scan_down:
  "vector_search kb_scan_down q n thr
     = Inr [doc_far\<lparr>mongo_id := None, embedding := None, score := None\<rparr>]"
proof -
  have "store_error kb_scan_down \<noteq> None" by (simp add: kb_scan_down_def)
  then show ?thesis by (simp add: vector_search_fallback fts_scan_down)
qed

text \<open>
  Claim C6 fails as stated.  The query embedding \<open>[1, 0]\<close> is obtained, but the scan of
  the collection raises: \<open>vector_search\<close> returns the lexical result, a document whose
  embedding \<open>[0, 1]\<close> has cosine similarity \<open>0\<close> to the query, below the threshold
  \<open>0.5\<close>, and which carries no similarity.
\<close>

theorem vector_search_scan_failure_unfiltered:
  "generate_embedding kb_scan_down ''q'' = Some [1, 0]
   \<and> store_error kb_scan_down = Some StoreUnavailable
   \<and> collection kb_scan_down = [doc_far] \<and> embedding doc_far = Some (Vec [0, 1])
   \<and> cosine_similarity [1, 0] [0, 1] < 1 / 2
   \<and> vector_search kb_scan_down ''q'' 10 (1 / 2)
       = Inr [doc_far\<lparr>mongo_id := None, embedding := None, score := None\<rparr>]
   \<and> similarity_score (doc_far\<lparr>mongo_id := None, embedding := None, score := None\<rparr>) = None"
  by (simp add: gen_scan_down vs_scan_down cos_10_01) (simp add: kb_scan_down_def doc_far_def)

text \<open>
  Claim C6, amended.  When a query embedding \<open>qe\<close> is obtained and the scan of the
  collection succeeds, \<open>vector_search\<close> returns normally; every returned document comes
  from a stored document whose cosine similarity to \<open>qe\<close> is at least the threshold, and
  carries that similarity; the list is in descending order of similarity; and for a
  limit that is a count (\<open>limit \<ge> 0\<close>) it has at most \<open>limit\<close> elements.  When the
  embedding is obtained and the scan raises, \<open>vector_search\<close> returns what
  \<open>full_text_search\<close> returns for the same query and limit.
\<close>

theorem vector_search_threshold_sorted_limit:
  "(generate_embedding self query = Some qe \<and> store_error self = None \<longrightarrow>
      (\<exists>rs. vector_search self query limit thr = Inr rs
        \<and> (\<forall>r\<in>set rs. \<exists>d\<in>set (collection self). \<exists>v. embedding_vector d = Some v
               \<and> similarity_score r = Some (cosine_similarity qe v)
               \<and> cosine_similarity qe v \<ge> thr)
        \<and> sorted_wrt (\<lambda>x y. get_similarity_score x \<ge> get_similarity_score y) rs
        \<and> (0 \<le> limit \<longrightarrow> int (length rs) \<le> limit)))
   \<and> (generate_embedding self query = Some qe \<and> store_error self = Some e \<longrightarrow>
        vector_search self query limit thr = full_text_search self query limit)"
proof (intro conjI impI)
  assume a: "generate_embedding self query = Some qe \<and> store_error self = None"
  then have g: "generate_embedding self query = Some qe" and s: "store_error self = None"
    by simp_all
  let ?rs = "py_prefix limit (sort_desc get_similarity_score
            (score_documents qe thr (filter (\<lambda>d. embedding d \<noteq> None) (collection self))))"
  have eq: "vector_search self query limit thr = Inr ?rs"
    using g s by (rule vector_search_vector_path)
  have "\<forall>r\<in>set ?rs. \<exists>d\<in>set (collection self). \<exists>v. embedding_vector d = Some v
            \<and> similarity_score r = Some (cosine_similarity qe v)
            \<and> cosine_similarity qe v \<ge> thr"
  proof
    fix r assume "r \<in> set ?rs"
    from vector_search_elem [OF g s eq this]
    show "\<exists>d\<in>set (collection self). \<exists>v. embedding_vector d = Some v
            \<and> similarity_score r = Some (cosine_similarity qe v)
            \<and> cosine_similarity qe v \<ge> thr" by fastforce
  qed
  moreover have "sorted_wrt (\<lambda>x y. get_similarity_score x \<ge> get_similarity_score y) ?rs"
    by (intro sorted_wrt_py_prefix sorted_sort_desc)
  moreover have "0 \<le> limit \<longrightarrow> int (length ?rs) \<le> limit"
    by (simp add: length_py_prefix)
  ultimately show "\<exists>rs. vector_search self query limit thr = Inr rs
        \<and> (\<forall>r\<in>set rs. \<exists>d\<in>set (collection self). \<exists>v. embedding_vector d = Some v
               \<and> similarity_score r = Some (cosine_similarity qe v)
               \<and> cosine_similarity qe v \<ge> thr)
        \<and> sorted_wrt (\<lambda>x y. get_similarity_score x \<ge> get_similarity_score y) rs
        \<and> (0 \<le> limit \<longrightarrow> int (length rs) \<le> limit)"
    using eq by blast
next
  assume "generate_embedding self query = Some qe \<and> store_error self = Some e"
  then have "store_error self \<noteq> None" by simp
  then show "vector_search self query limit thr = full_text_search self query limit"
    by (simp add: vector_search_fallback)
qed

text \<open>
  The amended statement at the two-document knowledge base, limit \<open>1\<close>, threshold
  \<open>0.5\<close>, and at the knowledge base whose scan raises.
\<close>

theorem vector_search_threshold_sorted_limit_witness:
  "generate_embedding kb_ab ''q'' = Some [1, 0] \<and> store_error kb_ab = None \<and> (0::int) \<le> 1
   \<and> vector_search kb_ab ''q'' 1 (1 / 2)
       = Inr [doc_a\<lparr>mongo_id := None, embedding := None, similarity_score := Some 1\<rparr>]
   \<and> (\<exists>rs. vector_search kb_ab ''q'' 1 (1 / 2) = Inr rs
     \<and> (\<forall>r\<in>set rs. \<exists>d\<in>set (collection kb_ab). \<exists>v. embedding_vector d = Some v
            \<and> similarity_score r = Some (cosine_similarity [1, 0] v)
            \<and> cosine_similarity [1, 0] v \<ge> 1 / 2)
     \<and> sorted_wrt (\<lambda>x y. get_similarity_score x \<ge> get_similarity_score y) rs
     \<and> int (length rs) \<le> 1)
   \<and> generate_embedding kb_scan_down ''q'' = Some [1, 0]
   \<and> store_error kb_scan_down = Some StoreUnavailable
   \<and> vector_search kb_scan_down ''q'' 1 (1 / 2) = full_text_search kb_scan_down ''q'' 1"
proof -
  have g: "generate_embedding kb_ab ''q'' = Some [1, 0]"
    by (simp add: generate_embedding_def kb_ab_def)
  have s: "store_error kb_ab = None"
    by (simp add: kb_ab_def)
  have v: "vector_search kb_ab ''q'' 1 (1 / 2)
       = Inr [doc_a\<lparr>mongo_id := None, embedding := None, similarity_score := Some 1\<rparr>]"
    by (simp add: vs_ab)
  have g': "generate_embedding kb_scan_down ''q'' = Some [1, 0]"
    by (rule gen_scan_down)
  have s': "store_error kb_scan_down = Some StoreUnavailable"
    by (simp add: kb_scan_down_def)
  note T1 = vector_search_threshold_sorted_limit [where self = kb_ab and query = "''q''"
      and qe = "[1, 0]" and limit = 1 and thr = "1 / 2"]
  note T2 = vector_search_threshold_sorted_limit [where self = kb_scan_down and query = "''q''"
      and qe = "[1, 0]" and limit = 1 and thr = "1 / 2" and e = StoreUnavailable]
  from T1 g s have a: "\<exists>rs. vector_search kb_ab ''q'' 1 (1 / 2) = Inr rs
     \<and> (\<forall>r\<in>set rs. \<exists>d\<in>set (collection kb_ab). \<exists>v. embedding_vector d = Some v
            \<and> similarity_score r = Some (cosine_similarity [1, 0] v)
            \<and> cosine_similarity [1, 0] v \<ge> 1 / 2)
     \<and> sorted_wrt (\<lambda>x y. get_similarity_score x \<ge> get_similarity_score y) rs
     \<and> int (length rs) \<le> 1"
    by simp
  from T2 g' s' have b: "vector_search kb_scan_down ''q'' 1 (1 / 2) = full_text_search kb_scan_down ''q'' 1"
    by blast
  have z: "(0::int) \<le> 1" by simp
  from g s z v a g' s' b show ?thesis by (intro conjI)
qed

text \<open>
  Claim C2 fails as stated.  When the embedding provider fails, \<open>vector_search\<close> falls
  back to the lexical search and returns a stored document that has no embedding.
\<close>

theorem vector_search_returns_unembedded_document:
  "collection kb_embedding_down = [doc_plain] \<and> embedding doc_plain = None
   \<and> vector_search kb_embedding_down ''q'' 10 (1 / 2)
       = Inr [doc_plain\<lparr>mongo_id := None, embedding := None, score := None\<rparr>]"
  by (simp add: kb_embedding_down_def doc_plain_def vector_search_def generate_embedding_def
      full_text_search_def strip_text_fields_def)

text \<open>
  Claim C2, amended.  When a query embedding is obtained and the scan of the collection
  succeeds, every document returned by \<open>vector_search\<close> is a stored document that
  carries a non-null, non-empty embedding, with \<^verbatim>\<open>_id\<close> and \<^verbatim>\<open>embedding\<close> removed
  and the similarity added.  When vector search is disabled, no query embedding is
  obtained, or the scan raises, \<open>vector_search\<close> returns what \<open>full_text_search\<close>
  returns for the same query and limit.
\<close>

theorem vector_search_only_embedded_on_vector_path:
  "(generate_embedding self query = Some qe \<and> store_error self = None
      \<and> vector_search self query limit thr = Inr rs \<and> r \<in> set rs \<longrightarrow>
      (\<exists>d\<in>set (collection self). \<exists>v. embedding d = Some (Vec v) \<and> v \<noteq> []
           \<and> r = d\<lparr>mongo_id := None, embedding := None,
                    similarity_score := Some (cosine_similarity qe v)\<rparr>))
   \<and> (\<not> enable_vector_search self \<or> generate_embedding self query = None
        \<or> store_error self \<noteq> None \<longrightarrow>
        vector_search self query limit thr = full_text_search self query limit)"
proof (intro conjI impI)
  assume a: "generate_embedding self query = Some qe \<and> store_error self = None
      \<and> vector_search self query limit thr = Inr rs \<and> r \<in> set rs"
  then have "\<exists>d\<in>set (collection self). \<exists>v. embedding_vector d = Some v
           \<and> thr \<le> cosine_similarity qe v
           \<and> r = d\<lparr>mongo_id := None, embedding := None,
                    similarity_score := Some (cosine_similarity qe v)\<rparr>"
    using vector_search_elem [of self query qe limit thr rs r] by blast
  then obtain d v where
    "d \<in> set (collection self)" "embedding_vector d = Some v"
    "r = d\<lparr>mongo_id := None, embedding := None,
            similarity_score := Some (cosine_similarity qe v)\<rparr>"
    by blast
  moreover from this(2) have "embedding d = Some (Vec v) \<and> v \<noteq> []"
    by (auto simp: embedding_vector_def split: option.splits emb.splits if_splits)
  ultimately show "\<exists>d\<in>set (collection self). \<exists>v. embedding d = Some (Vec v) \<and> v \<noteq> []
           \<and> r = d\<lparr>mongo_id := None, embedding := None,
                    similarity_score := Some (cosine_similarity qe v)\<rparr>"
    by blast
next
  assume "\<not> enable_vector_search self \<or> generate_embedding self query = None
        \<or> store_error self \<noteq> None"
  then show "vector_search self query limit thr = full_text_search self query limit"
    by (rule vector_search_fallback)
qed

text \<open>
  The amended statement at the two-document knowledge base, and at the knowledge base
  whose embedding provider fails.
\<close>

theorem vector_search_only_embedded_on_vector_path_witness:
  "generate_embedding kb_ab ''q'' = Some [1, 0] \<and> store_error kb_ab = None
   \<and> vector_search kb_ab ''q'' 1 (1 / 2)
       = Inr [doc_a\<lparr>mongo_id := None, embedding := None, similarity_score := Some 1\<rparr>]
   \<and> (\<exists>d\<in>set (collection kb_ab). \<exists>v. embedding d = Some (Vec v) \<and> v \<noteq> []
           \<and> doc_a\<lparr>mongo_id := None, embedding := None, similarity_score := Some 1\<rparr>
               = d\<lparr>mongo_id := None, embedding := None,
                    similarity_score := Some (cosine_similarity [1, 0] v)\<rparr>)
   \<and> generate_embedding kb_embedding_down ''q'' = None
   \<and> vector_search kb_embedding_down ''q'' 10 (1 / 2)
       = full_text_search kb_embedding_down ''q'' 10
   \<and> full_text_search kb_embedding_down ''q'' 10
       = Inr [doc_plain\<lparr>mongo_id := None, embedding := None, score := None\<rparr>]"
proof -
  let ?r = "doc_a\<lparr>mongo_id := None, embedding := None, similarity_score := Some 1\<rparr>"
  have g: "generate_embedding kb_ab ''q'' = Some [1, 0]"
    by (simp add: generate_embedding_def kb_ab_def)
  have s: "store_error kb_ab = None"
    by (simp add: kb_ab_def)
  have v: "vector_search kb_ab ''q'' 1 (1 / 2) = Inr [?r]"
    by (simp add: vs_ab)
  have m: "?r \<in> set [?r]" by simp
  have g': "generate_embedding kb_embedding_down ''q'' = None"
    by (simp add: generate_embedding_def kb_embedding_down_def)
  have f: "full_text_search kb_embedding_down ''q'' 10
       = Inr [doc_plain\<lparr>mongo_id := None, embedding := None, score := None\<rparr>]"
    by (simp add: full_text_search_def kb_embedding_down_def strip_text_fields_def)
  note T1 = vector_search_only_embedded_on_vector_path [where self = kb_ab and query = "''q''"
      and qe = "[1, 0]" and limit = 1 and thr = "1 / 2" and rs = "[?r]" and r = ?r]
  note T2 = vector_search_only_embedded_on_vector_path [where self = kb_embedding_down
      and query = "''q''" and limit = 10 and thr = "1 / 2"]
  from T1 g s v m have a: "\<exists>d\<in>set (collection kb_ab). \<exists>v. embedding d = Some (Vec v) \<and> v \<noteq> []
           \<and> ?r = d\<lparr>mongo_id := None, embedding := None,
                    similarity_score := Some (cosine_similarity [1, 0] v)\<rparr>"
    by blast
  from T2 g' have b: "vector_search kb_embedding_down ''q'' 10 (1 / 2)
       = full_text_search kb_embedding_down ''q'' 10"
    by blast
  from g s v a g' b f show ?thesis by (intro conjI)
qed

text \<open>
  Claim C7 fails as stated.  The same two documents with identical embeddings, stored in
  the two possible scan orders: \<open>vector_search\<close> with limit \<open>1\<close> and threshold \<open>0.99\<close>
  returns the one scanned first in each case, so the tie is not decided by
  \<^verbatim>\<open>content_id\<close>.
\<close>

theorem vector_search_tie_follows_scan_order:
  "collection kb_ab = [doc_a, doc_b] \<and> collection kb_ba = [doc_b, doc_a]
   \<and> vector_search kb_ab ''q'' 1 (99 / 100)
       = Inr [doc_a\<lparr>mongo_id := None, embedding := None, similarity_score := Some 1\<rparr>]
   \<and> vector_search kb_ba ''q'' 1 (99 / 100)
       = Inr [doc_b\<lparr>mongo_id := None, embedding := None, similarity_score := Some 1\<rparr>]
   \<and> content_id doc_a \<noteq> content_id doc_b"
  by (simp add: vector_search_def generate_embedding_def kb_ab_def kb_ba_def find_embedding_exists_def
      doc_a_def doc_b_def embedding_vector_def cos_10 sort_desc_def py_prefix_def
      get_similarity_score_def)

text \<open>
  Claim C7, amended.  For two stored documents with the same embedding \<open>e\<close> and a query
  whose embedding is \<open>e\<close>, whenever the similarity computed for \<open>e\<close> with itself
  reaches the threshold \<open>0.99\<close> (it is approximately \<open>1.0\<close>), \<open>vector_search\<close> with
  limit \<open>1\<close> and that threshold returns exactly one document, carrying that similarity:
  the one that the scan of the collection yields first (both get the same similarity and
  the sort is stable).  Nothing is assumed about the value of the similarity beyond the
  threshold.
\<close>

theorem vector_search_tie_first_scanned:
  assumes "collection self = [d1, d2]"
    and "embedding d1 = Some (Vec e)" and "embedding d2 = Some (Vec e)"
    and "generate_embedding self query = Some e" and "store_error self = None"
    and "99 / 100 \<le> cosine_similarity e e"
  shows "vector_search self query 1 (99 / 100)
     = Inr [d1\<lparr>mongo_id := None, embedding := None,
               similarity_score := Some (cosine_similarity e e)\<rparr>]"
proof -
  have "e \<noteq> []"
    using assms(4) by (auto simp: generate_embedding_def Let_def split: if_splits sum.splits)
  then have "embedding_vector d1 = Some e" "embedding_vector d2 = Some e"
    using assms(2,3) by (simp_all add: embedding_vector_def)
  then show ?thesis
    using assms(1,2,3,6)
    by (simp add: vector_search_vector_path [OF assms(4,5)] sort_desc_def py_prefix_def
        get_similarity_score_def Let_def)
qed

text \<open>
  The amended statement at the knowledge base that scans \<open>doc_b\<close> before \<open>doc_a\<close>.
\<close>

theorem vector_search_tie_first_scanned_witness:
  "collection kb_ba = [doc_b, doc_a]
   \<and> embedding doc_b = Some (Vec [1, 0]) \<and> embedding doc_a = Some (Vec [1, 0])
   \<and> generate_embedding kb_ba ''q'' = Some [1, 0] \<and> store_error kb_ba = None
   \<and> 99 / 100 \<le> cosine_similarity [1, 0] [1, 0]
   \<and> vector_search kb_ba ''q'' 1 (99 / 100)
       = Inr [doc_b\<lparr>mongo_id := None, embedding := None,
                    similarity_score := Some (cosine_similarity [1, 0] [1, 0])\<rparr>]"
proof -
  have h: "collection kb_ba = [doc_b, doc_a]"
    "embedding doc_b = Some (Vec [1, 0])" "embedding doc_a = Some (Vec [1, 0])"
    "generate_embedding kb_ba ''q'' = Some [1, 0]" "store_error kb_ba = None"
    "99 / 100 \<le> cosine_similarity [1, 0] [1, 0]"
    by (simp_all add: kb_ba_def doc_a_def doc_b_def generate_embedding_def cos_10)
  from h vector_search_tie_first_scanned [OF h] show ?thesis by (intro conjI)
qed

text \<open>
  Claim C4 fails as stated.  When the text index is unavailable, \<open>full_text_search\<close>
  returns the empty list as a normal result; no error reaches the caller.
\<close>

theorem full_text_search_swallows_index_failure:
  "find_text kb_index_down ''q'' 10 = Inl IndexUnavailable
   \<and> full_text_search kb_index_down ''q'' 10 = Inr []"
  by (simp add: kb_index_down_def full_text_search_def)

text \<open>
  Claim C4, amended.  \<open>full_text_search\<close> returns the empty list as a normal result
  when no document matches, and also when the cursor raises (for instance because the
  index is unavailable): the exception is caught.
\<close>

theorem full_text_search_empty_result:
  "(find_text self query limit = Inr [] \<longrightarrow> full_text_search self query limit = Inr [])
   \<and> (find_text self query limit = Inl e \<longrightarrow> full_text_search self query limit = Inr [])"
  by (simp add: full_text_search_def)

text \<open>
  Both cases: a knowledge base without matches and one whose index is unavailable.
\<close>

theorem full_text_search_empty_result_witness:
  "find_text kb_ab ''q'' 10 = Inr [] \<and> full_text_search kb_ab ''q'' 10 = Inr []
   \<and> find_text kb_index_down ''q'' 10 = Inl IndexUnavailable
   \<and> full_text_search kb_index_down ''q'' 10 = Inr []"
  using full_text_search_empty_result [of kb_ab "''q''" 10 IndexUnavailable]
    full_text_search_empty_result [of kb_index_down "''q''" 10 IndexUnavailable]
  by (simp add: kb_ab_def kb_index_down_def)

section \<open>Dictionaries built by comprehension\<close>

lemma map_of_fold_dict_set:
  "map_of (fold (\<lambda>(k, v) d. dict_set d k v) kvs d0) = map_of (rev kvs @ d0)"
proof (induction kvs arbitrary: d0)
  case Nil
  then show ?case by simp
next
  case (Cons kv kvs)
  obtain k v where kv: "kv = (k, v)" by (cases kv)
  let ?f = "\<lambda>(k, v) d. dict_set d k v"
  have "map_of (fold ?f (kv # kvs) d0) = map_of (fold ?f kvs (dict_set d0 k v))"
    by (simp add: kv)
  also have "\<dots> = map_of (rev kvs @ dict_set d0 k v)"
    by (rule Cons.IH)
  also have "\<dots> = map_of (rev (kv # kvs) @ d0)"
    by (simp add: kv dict_set_def update_conv')
  finally show ?case .
qed

lemma map_of_dict_of: "map_of (dict_of kvs) = map_of (rev kvs)"
  by (simp add: dict_of_def map_of_fold_dict_set)

lemma distinct_fold_dict_set:
  "distinct (map fst d0) \<Longrightarrow> distinct (map fst (fold (\<lambda>(k, v) d. dict_set d k v) kvs d0))"
proof (induction kvs arbitrary: d0)
  case Nil
  then show ?case by simp
next
  case (Cons kv kvs)
  obtain k v where kv: "kv = (k, v)" by (cases kv)
  let ?f = "\<lambda>(k, v) d. dict_set d k v"
  have "distinct (map fst (dict_set d0 k v))"
    using Cons.prems by (simp add: dict_set_def distinct_update)
  then have "distinct (map fst (fold ?f kvs (dict_set d0 k v)))"
    by (rule Cons.IH)
  then show ?case by (simp add: kv)
qed

lemma distinct_dict_of: "distinct (map fst (dict_of kvs))"
  by (simp add: dict_of_def distinct_fold_dict_set)

lemma dict_of_entry: "(k, v) \<in> set (dict_of kvs) \<Longrightarrow> (k, v) \<in> set kvs"
proof -
  assume "(k, v) \<in> set (dict_of kvs)"
  then have "map_of (dict_of kvs) k = Some v"
    using distinct_dict_of [of kvs] by simp
  then have "map_of (rev kvs) k = Some v"
    by (simp add: map_of_dict_of)
  then have "(k, v) \<in> set (rev kvs)" by (rule map_of_SomeD)
  then show ?thesis by simp
qed

lemma dict_get_dict_of_present:
  "distinct (map fst kvs) \<Longrightarrow> (k, v) \<in> set kvs \<Longrightarrow> dict_get (dict_of kvs) k dflt = v"
proof -
  assume d: "distinct (map fst kvs)" and m: "(k, v) \<in> set kvs"
  have "distinct (map fst (rev kvs))" using d by (simp add: rev_map [symmetric])
  then have "map_of (rev kvs) k = Some v" using m by simp
  then show ?thesis by (simp add: dict_get_def map_of_dict_of)
qed

lemma dict_get_dict_of_absent:
  "k \<notin> fst ` set kvs \<Longrightarrow> dict_get (dict_of kvs) k dflt = dflt"
proof -
  assume "k \<notin> fst ` set kvs"
  then have "map_of (rev kvs) k = None"
    by (simp add: map_of_eq_None_iff)
  then show ?thesis by (simp add: dict_get_def map_of_dict_of)
qed

section \<open>Scores of the fusion\<close>

lemma text_score_keys:
  "map fst (map (\<lambda>(i, d). (doc_key d, 1 / (real i + 1))) (enumerate 0 T)) = map doc_key T"
proof -
  have "map (\<lambda>p. doc_key (snd p)) (enumerate n T) = map doc_key T" for n
    by (induction T arbitrary: n) simp_all
  then show ?thesis by (simp add: comp_def case_prod_unfold)
qed

lemma text_score_present:
  assumes "distinct (map doc_key T)" and "i < length T"
  shows "dict_get (text_scores_of T) (doc_key (T ! i)) 0 = 1 / (real i + 1)"
proof -
  let ?kvs = "map (\<lambda>(i, d). (doc_key d, 1 / (real i + 1))) (enumerate 0 T)"
  have "distinct (map fst ?kvs)" using assms(1) by (simp only: text_score_keys)
  moreover have "?kvs ! i = (doc_key (T ! i), 1 / (real i + 1))"
    using assms(2) by (simp add: nth_enumerate_eq)
  then have "(doc_key (T ! i), 1 / (real i + 1)) \<in> set ?kvs"
    using assms(2) by (metis length_enumerate length_map nth_mem)
  ultimately show ?thesis
    unfolding text_scores_of_def by (rule dict_get_dict_of_present)
qed

lemma text_score_absent:
  assumes "k \<notin> doc_key ` set T"
  shows "dict_get (text_scores_of T) k 0 = 0"
proof -
  let ?kvs = "map (\<lambda>(i, d). (doc_key d, 1 / (real i + 1))) (enumerate 0 T)"
  have "fst ` set ?kvs = doc_key ` set T"
    by (metis text_score_keys set_map)
  with assms have "k \<notin> fst ` set ?kvs" by blast
  then show ?thesis
    unfolding text_scores_of_def by (rule dict_get_dict_of_absent)
qed

lemma vector_score_present:
  assumes "distinct (map doc_key V)" and "d \<in> set V"
  shows "dict_get (vector_scores_of V) (doc_key d) 0 = get_similarity_score d"
proof -
  let ?kvs = "map (\<lambda>d. (doc_key d, get_similarity_score d)) V"
  have "distinct (map fst ?kvs)" using assms(1) by (simp add: comp_def)
  moreover have "(doc_key d, get_similarity_score d) \<in> set ?kvs"
    using assms(2) by auto
  ultimately show ?thesis
    unfolding vector_scores_of_def by (rule dict_get_dict_of_present)
qed

lemma vector_score_absent:
  assumes "k \<notin> doc_key ` set V"
  shows "dict_get (vector_scores_of V) k 0 = 0"
proof -
  have "k \<notin> fst ` set (map (\<lambda>d. (doc_key d, get_similarity_score d)) V)"
    using assms by (auto simp: image_iff)
  then show ?thesis
    unfolding vector_scores_of_def by (rule dict_get_dict_of_absent)
qed

lemma fuse_elem:
  assumes "r \<in> set (fuse limit tw vw T V)"
  shows "\<exists>d\<in>set (T @ V). r = d\<lparr>combined_score :=
              Some (tw * dict_get (text_scores_of T) (doc_key d) 0
                    + vw * dict_get (vector_scores_of V) (doc_key d) 0),
            similarity_score := None\<rparr>"
proof -
  let ?C = "map (combine tw vw (text_scores_of T) (vector_scores_of V)) (all_docs_of T V)"
  have eq: "fuse limit tw vw T V = py_prefix limit (sort_desc get_combined_score ?C)"
    by (simp add: fuse_def Let_def)
  have "r \<in> set (sort_desc get_combined_score ?C)"
    using assms set_py_prefix unfolding eq by (rule rev_subsetD)
  then have "r \<in> set ?C"
    by (simp only: set_sort_desc)
  then obtain k d where kd: "(k, d) \<in> set (all_docs_of T V)"
    and r: "r = combine tw vw (text_scores_of T) (vector_scores_of V) (k, d)"
    by auto
  from kd have "(k, d) \<in> set (map (\<lambda>d. (doc_key d, d)) (T @ V))"
    unfolding all_docs_of_def by (rule dict_of_entry)
  then have "d \<in> set (T @ V)" "k = doc_key d" by auto
  then show ?thesis using r by (auto simp: combine_def Let_def)
qed

lemma fuse_sorted:
  "sorted_wrt (\<lambda>x y. get_combined_score x \<ge> get_combined_score y) (fuse limit tw vw T V)"
  by (simp add: fuse_def Let_def sorted_wrt_py_prefix sorted_sort_desc)

lemma fuse_length: "0 \<le> limit \<Longrightarrow> int (length (fuse limit tw vw T V)) \<le> limit"
  by (simp add: fuse_def Let_def length_py_prefix)

lemma doc_key_scored [simp]:
  "doc_key (d\<lparr>combined_score := c, similarity_score := s\<rparr>) = doc_key d"
  by (simp add: doc_key_def split: option.splits)

lemma hybrid_search_fusion_path:
  assumes "enable_vector_search self"
    and "full_text_search self query (limit * 2) = Inr T"
    and "vector_search self query (limit * 2) (3 / 10) = Inr V"
  shows "hybrid_search self query limit tw vw = Inr (fuse limit tw vw T V)"
  using assms by (simp add: hybrid_search_def)

lemma fuse_scores:
  assumes "distinct (map doc_key T)" and "distinct (map doc_key V)"
    and "r \<in> set (fuse limit tw vw T V)"
  shows "\<exists>t v. combined_score r = Some (tw * t + vw * v)
           \<and> (\<forall>i<length T. doc_key (T ! i) = doc_key r \<longrightarrow> t = 1 / (real i + 1))
           \<and> (doc_key r \<notin> doc_key ` set T \<longrightarrow> t = 0)
           \<and> (\<forall>d\<in>set V. doc_key d = doc_key r \<longrightarrow> v = get_similarity_score d)
           \<and> (doc_key r \<notin> doc_key ` set V \<longrightarrow> v = 0)"
proof -
  from fuse_elem [OF assms(3)] obtain d where
    r: "r = d\<lparr>combined_score :=
              Some (tw * dict_get (text_scores_of T) (doc_key d) 0
                    + vw * dict_get (vector_scores_of V) (doc_key d) 0),
            similarity_score := None\<rparr>"
    by blast
  let ?t = "dict_get (text_scores_of T) (doc_key r) 0"
  let ?v = "dict_get (vector_scores_of V) (doc_key r) 0"
  have k: "doc_key r = doc_key d" by (simp add: r)
  have "combined_score r = Some (tw * ?t + vw * ?v)"
    unfolding k by (simp add: r)
  moreover have "\<forall>i<length T. doc_key (T ! i) = doc_key r \<longrightarrow> ?t = 1 / (real i + 1)"
    using text_score_present [OF assms(1)] by metis
  moreover have "doc_key r \<notin> doc_key ` set T \<longrightarrow> ?t = 0"
    by (simp add: text_score_absent)
  moreover have "\<forall>d\<in>set V. doc_key d = doc_key r \<longrightarrow> ?v = get_similarity_score d"
    using vector_score_present [OF assms(2)] by metis
  moreover have "doc_key r \<notin> doc_key ` set V \<longrightarrow> ?v = 0"
    by (simp add: vector_score_absent)
  ultimately show ?thesis by blast
qed

text \<open>
  Claim C1.  With vector search enabled, let \<open>T\<close> and \<open>V\<close> be the lexical and the
  vector result lists that \<open>hybrid_search\<close> fetches (each with pairwise distinct
  document keys, \<^verbatim>\<open>url\<close> else \<^verbatim>\<open>content_id\<close>).  Then \<open>hybrid_search\<close> returns normally,
  and every returned document has \<^verbatim>\<open>combined_score\<close> \<open>= text_weight * t + vector_weight * v\<close>,
  where \<open>t = 1 / (i + 1)\<close> if its key is at position \<open>i\<close> of \<open>T\<close> and \<open>0\<close> if it is not
  in \<open>T\<close>, and \<open>v\<close> is the \<^verbatim>\<open>similarity_score\<close> it carries in \<open>V\<close> and \<open>0\<close> if it is not
  in \<open>V\<close>.  The list is in descending order of \<^verbatim>\<open>combined_score\<close> and, for a limit that
  is a count, has at most \<open>limit\<close> elements.  With weights \<open>0.3\<close> and \<open>0.7\<close>, a returned
  document at lexical rank \<open>0\<close> that is absent from \<open>V\<close> scores exactly \<open>0.3\<close>.
\<close>

theorem hybrid_search_fusion:
  assumes "enable_vector_search self"
    and "full_text_search self query (limit * 2) = Inr T"
    and "vector_search self query (limit * 2) (3 / 10) = Inr V"
    and "distinct (map doc_key T)" and "distinct (map doc_key V)"
  shows "\<exists>rs. hybrid_search self query limit tw vw = Inr rs
     \<and> (\<forall>r\<in>set rs. \<exists>t v. combined_score r = Some (tw * t + vw * v)
           \<and> (\<forall>i<length T. doc_key (T ! i) = doc_key r \<longrightarrow> t = 1 / (real i + 1))
           \<and> (doc_key r \<notin> doc_key ` set T \<longrightarrow> t = 0)
           \<and> (\<forall>d\<in>set V. doc_key d = doc_key r \<longrightarrow> v = get_similarity_score d)
           \<and> (doc_key r \<notin> doc_key ` set V \<longrightarrow> v = 0))
     \<and> sorted_wrt (\<lambda>x y. get_combined_score x \<ge> get_combined_score y) rs
     \<and> (0 \<le> limit \<longrightarrow> int (length rs) \<le> limit)
     \<and> (tw = 3 / 10 \<and> vw = 7 / 10 \<longrightarrow>
          (\<forall>r\<in>set rs. T \<noteq> [] \<and> doc_key r = doc_key (T ! 0) \<and> doc_key r \<notin> doc_key ` set V
             \<longrightarrow> combined_score r = Some (3 / 10)))"
proof -
  let ?rs = "fuse limit tw vw T V"
  have eq: "hybrid_search self query limit tw vw = Inr ?rs"
    using assms(1,2,3) by (rule hybrid_search_fusion_path)
  have scores: "\<forall>r\<in>set ?rs. \<exists>t v. combined_score r = Some (tw * t + vw * v)
           \<and> (\<forall>i<length T. doc_key (T ! i) = doc_key r \<longrightarrow> t = 1 / (real i + 1))
           \<and> (doc_key r \<notin> doc_key ` set T \<longrightarrow> t = 0)
           \<and> (\<forall>d\<in>set V. doc_key d = doc_key r \<longrightarrow> v = get_similarity_score d)
           \<and> (doc_key r \<notin> doc_key ` set V \<longrightarrow> v = 0)"
    using fuse_scores [OF assms(4,5)] by blast
  have example: "tw = 3 / 10 \<and> vw = 7 / 10 \<longrightarrow>
          (\<forall>r\<in>set ?rs. T \<noteq> [] \<and> doc_key r = doc_key (T ! 0) \<and> doc_key r \<notin> doc_key ` set V
             \<longrightarrow> combined_score r = Some (3 / 10))"
  proof (intro impI ballI)
    fix r
    assume w: "tw = 3 / 10 \<and> vw = 7 / 10" and r: "r \<in> set ?rs"
      and h: "T \<noteq> [] \<and> doc_key r = doc_key (T ! 0) \<and> doc_key r \<notin> doc_key ` set V"
    from scores r obtain t v where tv: "combined_score r = Some (tw * t + vw * v)"
      "\<forall>i<length T. doc_key (T ! i) = doc_key r \<longrightarrow> t = 1 / (real i + 1)"
      "doc_key r \<notin> doc_key ` set V \<longrightarrow> v = 0"
      by blast
    from h have "0 < length T" by simp
    with tv(2) h have "t = 1 / (real 0 + 1)" by metis
    moreover from tv(3) h have "v = 0" by blast
    ultimately show "combined_score r = Some (3 / 10)"
      using tv(1) w by simp
  qed
  show ?thesis
    using eq scores example fuse_sorted [of limit tw vw T V] fuse_length [of limit tw vw T V]
    by blast
qed

lemma fts_hybrid:
  "full_text_search kb_hybrid q n = Inr [doc_plain\<lparr>mongo_id := None, embedding := None, score := None\<rparr>]"
  by (simp add: full_text_search_def kb_hybrid_def strip_text_fields_def)

lemma vs_hybrid:
  "1 \<le> n \<Longrightarrow> vector_search kb_hybrid q n (3 / 10)
     = Inr [doc_b\<lparr>mongo_id := None, embedding := None, similarity_score := Some 1\<rparr>]"
  by (simp add: vector_search_def generate_embedding_def kb_hybrid_def find_embedding_exists_def
      doc_plain_def doc_b_def embedding_vector_def cos_10 sort_desc_def py_prefix_def
      get_similarity_score_def)

lemma enable_hybrid: "enable_vector_search kb_hybrid"
  by (simp add: kb_hybrid_def)

lemma fuse_example:
  "fuse 2 (3 / 10) (7 / 10)
     [doc_plain\<lparr>mongo_id := None, embedding := None, score := None\<rparr>]
     [doc_b\<lparr>mongo_id := None, embedding := None, similarity_score := Some 1\<rparr>]
     = [doc_b\<lparr>mongo_id := None, embedding := None, combined_score := Some (7 / 10)\<rparr>,
        doc_plain\<lparr>mongo_id := None, score := None, combined_score := Some (3 / 10)\<rparr>]"
  by (simp add: fuse_def
      text_scores_of_def vector_scores_of_def all_docs_of_def dict_of_def dict_set_def dict_get_def
      combine_def doc_key_def doc_b_def doc_plain_def get_similarity_score_def
      get_combined_score_def sort_desc_def py_prefix_def enumerate_eq_zip)

lemma hybrid_example:
  "hybrid_search kb_hybrid ''q'' 2 (3 / 10) (7 / 10)
     = Inr [doc_b\<lparr>mongo_id := None, embedding := None, combined_score := Some (7 / 10)\<rparr>,
            doc_plain\<lparr>mongo_id := None, score := None, combined_score := Some (3 / 10)\<rparr>]"
  by (simp add: hybrid_search_fusion_path [OF enable_hybrid fts_hybrid vs_hybrid] fuse_example)

text \<open>
  The statement at a knowledge base whose lexical search finds \<open>doc_plain\<close> only and
  whose vector search finds \<open>doc_b\<close> only: \<open>doc_b\<close> scores \<open>0.7\<close>, \<open>doc_plain\<close> scores
  \<open>0.3\<close>.
\<close>

theorem hybrid_search_fusion_witness:
  "enable_vector_search kb_hybrid
   \<and> full_text_search kb_hybrid ''q'' (2 * 2)
       = Inr [doc_plain\<lparr>mongo_id := None, embedding := None, score := None\<rparr>]
   \<and> vector_search kb_hybrid ''q'' (2 * 2) (3 / 10)
       = Inr [doc_b\<lparr>mongo_id := None, embedding := None, similarity_score := Some 1\<rparr>]
   \<and> distinct (map doc_key [doc_plain\<lparr>mongo_id := None, embedding := None, score := None\<rparr>])
   \<and> distinct (map doc_key [doc_b\<lparr>mongo_id := None, embedding := None, similarity_score := Some 1\<rparr>])
   \<and> (0::int) \<le> 2
   \<and> hybrid_search kb_hybrid ''q'' 2 (3 / 10) (7 / 10)
       = Inr [doc_b\<lparr>mongo_id := None, embedding := None, combined_score := Some (7 / 10)\<rparr>,
              doc_plain\<lparr>mongo_id := None, score := None, combined_score := Some (3 / 10)\<rparr>]
   \<and> (\<exists>rs. hybrid_search kb_hybrid ''q'' 2 (3 / 10) (7 / 10) = Inr rs
     \<and> sorted_wrt (\<lambda>x y. get_combined_score x \<ge> get_combined_score y) rs
     \<and> int (length rs) \<le> 2
     \<and> (\<forall>r\<in>set rs. doc_key r = doc_key doc_plain \<longrightarrow> combined_score r = Some (3 / 10)))"
proof -
  let ?T = "[doc_plain\<lparr>mongo_id := None, embedding := None, score := None\<rparr>]"
  let ?V = "[doc_b\<lparr>mongo_id := None, embedding := None, similarity_score := Some 1\<rparr>]"
  have h: "enable_vector_search kb_hybrid"
    "full_text_search kb_hybrid ''q'' (2 * 2) = Inr ?T"
    "vector_search kb_hybrid ''q'' (2 * 2) (3 / 10) = Inr ?V"
    "distinct (map doc_key ?T)" "distinct (map doc_key ?V)"
    by (simp_all add: fts_hybrid vs_hybrid) (simp add: kb_hybrid_def)
  have k: "doc_key doc_plain \<notin> doc_key ` set ?V" "doc_key (?T ! 0) = doc_key doc_plain"
    by (simp_all add: doc_key_def doc_plain_def doc_b_def)
  from hybrid_search_fusion [OF h, where tw = "3 / 10" and vw = "7 / 10"] obtain rs where
    rs: "hybrid_search kb_hybrid ''q'' 2 (3 / 10) (7 / 10) = Inr rs"
      "sorted_wrt (\<lambda>x y. get_combined_score x \<ge> get_combined_score y) rs"
      "int (length rs) \<le> 2"
      "\<forall>r\<in>set rs. ?T \<noteq> [] \<and> doc_key r = doc_key (?T ! 0) \<and> doc_key r \<notin> doc_key ` set ?V
             \<longrightarrow> combined_score r = Some (3 / 10)"
    by auto
  from rs(4) k have "\<forall>r\<in>set rs. doc_key r = doc_key doc_plain \<longrightarrow> combined_score r = Some (3 / 10)"
    by simp
  with rs(1,2,3) have "\<exists>rs. hybrid_search kb_hybrid ''q'' 2 (3 / 10) (7 / 10) = Inr rs
     \<and> sorted_wrt (\<lambda>x y. get_combined_score x \<ge> get_combined_score y) rs
     \<and> int (length rs) \<le> 2
     \<and> (\<forall>r\<in>set rs. doc_key r = doc_key doc_plain \<longrightarrow> combined_score r = Some (3 / 10))"
    by blast
  with h hybrid_example show ?thesis by simp
qed

section \<open>Fields of the returned documents\<close>

lemma full_text_search_total: "\<exists>ds. full_text_search self query limit = Inr ds"
  by (simp add: full_text_search_returns)

lemma scored_fields:
  assumes "d \<in> set (py_prefix limit (sort_desc get_similarity_score (score_documents qe thr docs)))"
  shows "mongo_id d = None \<and> embedding d = None"
proof -
  have "d \<in> set (sort_desc get_similarity_score (score_documents qe thr docs))"
    using assms set_py_prefix by (rule rev_subsetD)
  then have "d \<in> set (score_documents qe thr docs)"
    by (simp only: set_sort_desc)
  from score_documents_elem [OF this] show ?thesis by auto
qed

lemma vector_search_cases:
  "vector_search self query limit thr = full_text_search self query limit
   \<or> (\<exists>qe docs. vector_search self query limit thr =
         Inr (py_prefix limit (sort_desc get_similarity_score (score_documents qe thr docs))))"
  by (auto simp: vector_search_def split: option.splits sum.splits)

lemma vector_search_total: "\<exists>ds. vector_search self query limit thr = Inr ds"
  using vector_search_cases [of self query limit thr] full_text_search_total [of self query limit]
  by auto

lemma vector_search_fields:
  assumes "vector_search self query limit thr = Inr ds" and "d \<in> set ds"
  shows "mongo_id d = None \<and> embedding d = None"
  using vector_search_cases [of self query limit thr]
proof (elim disjE exE)
  assume "vector_search self query limit thr = full_text_search self query limit"
  then have "full_text_search self query limit = Inr ds" using assms(1) by simp
  from full_text_search_fields [OF this assms(2)] show ?thesis by simp
next
  fix qe docs
  assume "vector_search self query limit thr =
         Inr (py_prefix limit (sort_desc get_similarity_score (score_documents qe thr docs)))"
  then have "d \<in> set (py_prefix limit (sort_desc get_similarity_score (score_documents qe thr docs)))"
    using assms by simp
  then show ?thesis by (rule scored_fields)
qed

lemma hybrid_search_cases:
  "(\<not> enable_vector_search self
      \<and> hybrid_search self query limit tw vw = full_text_search self query limit)
   \<or> (\<exists>T V. full_text_search self query (limit * 2) = Inr T
         \<and> vector_search self query (limit * 2) (3 / 10) = Inr V
         \<and> hybrid_search self query limit tw vw = Inr (fuse limit tw vw T V))"
proof (cases "enable_vector_search self")
  case False
  then show ?thesis by (simp add: hybrid_search_def)
next
  case True
  obtain T where T: "full_text_search self query (limit * 2) = Inr T"
    using full_text_search_total by blast
  obtain V where V: "vector_search self query (limit * 2) (3 / 10) = Inr V"
    using vector_search_total by blast
  show ?thesis
    using T V hybrid_search_fusion_path [OF True T V] by blast
qed

lemma fuse_fields:
  assumes "r \<in> set (fuse limit tw vw T V)"
    and "\<forall>d\<in>set T. mongo_id d = None \<and> embedding d = None"
    and "\<forall>d\<in>set V. mongo_id d = None \<and> embedding d = None"
  shows "mongo_id r = None \<and> embedding r = None \<and> similarity_score r = None
     \<and> combined_score r \<noteq> None"
proof -
  from fuse_elem [OF assms(1)] obtain d c where "d \<in> set (T @ V)"
    "r = d\<lparr>combined_score := Some c, similarity_score := None\<rparr>"
    by blast
  then show ?thesis using assms(2,3) by auto
qed

text \<open>
  Claim C10.  \<open>full_text_search\<close>, \<open>vector_search\<close> and \<open>hybrid_search\<close> return
  normally, and every document they return has no \<^verbatim>\<open>_id\<close> and no \<^verbatim>\<open>embedding\<close> field;
  when \<open>hybrid_search\<close> fuses (vector search enabled) its documents have no
  \<^verbatim>\<open>similarity_score\<close> field either and do carry \<^verbatim>\<open>combined_score\<close>.
\<close>

theorem returned_documents_fields_removed:
  "(\<exists>ds. full_text_search self query limit = Inr ds
      \<and> (\<forall>d\<in>set ds. mongo_id d = None \<and> embedding d = None))
   \<and> (\<exists>ds. vector_search self query limit thr = Inr ds
      \<and> (\<forall>d\<in>set ds. mongo_id d = None \<and> embedding d = None))
   \<and> (\<exists>ds. hybrid_search self query limit tw vw = Inr ds
      \<and> (\<forall>d\<in>set ds. mongo_id d = None \<and> embedding d = None
            \<and> (enable_vector_search self \<longrightarrow>
                  similarity_score d = None \<and> combined_score d \<noteq> None)))"
proof (intro conjI)
  show "\<exists>ds. full_text_search self query limit = Inr ds
      \<and> (\<forall>d\<in>set ds. mongo_id d = None \<and> embedding d = None)"
    using full_text_search_total [of self query limit] full_text_search_fields by blast
  show "\<exists>ds. vector_search self query limit thr = Inr ds
      \<and> (\<forall>d\<in>set ds. mongo_id d = None \<and> embedding d = None)"
    using vector_search_total [of self query limit thr] vector_search_fields by blast
  show "\<exists>ds. hybrid_search self query limit tw vw = Inr ds
      \<and> (\<forall>d\<in>set ds. mongo_id d = None \<and> embedding d = None
            \<and> (enable_vector_search self \<longrightarrow>
                  similarity_score d = None \<and> combined_score d \<noteq> None))"
    using hybrid_search_cases [of self query limit tw vw]
  proof (elim disjE conjE exE)
    assume "\<not> enable_vector_search self"
      and "hybrid_search self query limit tw vw = full_text_search self query limit"
    then show ?thesis
      using full_text_search_total [of self query limit] full_text_search_fields by metis
  next
    fix T V
    assume T: "full_text_search self query (limit * 2) = Inr T"
      and V: "vector_search self query (limit * 2) (3 / 10) = Inr V"
      and H: "hybrid_search self query limit tw vw = Inr (fuse limit tw vw T V)"
    have "\<forall>d\<in>set T. mongo_id d = None \<and> embedding d = None"
      using full_text_search_fields [OF T] by blast
    moreover have "\<forall>d\<in>set V. mongo_id d = None \<and> embedding d = None"
      using vector_search_fields [OF V] by blast
    ultimately have "\<forall>r\<in>set (fuse limit tw vw T V). mongo_id r = None \<and> embedding r = None
        \<and> similarity_score r = None \<and> combined_score r \<noteq> None"
      using fuse_fields by blast
    then show ?thesis using H by blast
  qed
qed

text \<open>
  The three result lists at the example knowledge base, each non-empty.
\<close>

theorem returned_documents_fields_removed_witness:
  "enable_vector_search kb_hybrid
   \<and> full_text_search kb_hybrid ''q'' 2
       = Inr [doc_plain\<lparr>mongo_id := None, embedding := None, score := None\<rparr>]
   \<and> vector_search kb_hybrid ''q'' 2 (3 / 10)
       = Inr [doc_b\<lparr>mongo_id := None, embedding := None, similarity_score := Some 1\<rparr>]
   \<and> hybrid_search kb_hybrid ''q'' 2 (3 / 10) (7 / 10)
       = Inr [doc_b\<lparr>mongo_id := None, embedding := None, combined_score := Some (7 / 10)\<rparr>,
              doc_plain\<lparr>mongo_id := None, score := None, combined_score := Some (3 / 10)\<rparr>]
   \<and> mongo_id doc_plain \<noteq> None \<and> mongo_id doc_b \<noteq> None \<and> embedding doc_b \<noteq> None
   \<and> mongo_id (doc_plain\<lparr>mongo_id := None, embedding := None, score := None\<rparr>) = None
   \<and> embedding (doc_b\<lparr>mongo_id := None, embedding := None, similarity_score := Some 1\<rparr>) = None
   \<and> similarity_score
        (doc_b\<lparr>mongo_id := None, embedding := None, combined_score := Some (7 / 10)\<rparr>) = None
   \<and> combined_score
        (doc_b\<lparr>mongo_id := None, embedding := None, combined_score := Some (7 / 10)\<rparr>) \<noteq> None"
  using returned_documents_fields_removed [of kb_hybrid "''q''" 2 "3 / 10" "3 / 10" "7 / 10"]
  by (simp add: enable_hybrid fts_hybrid vs_hybrid hybrid_example) (simp add: doc_plain_def doc_b_def)

section \<open>The response cache\<close>

lemma distinct_dict_set:
  "distinct (map fst d) \<Longrightarrow> distinct (map fst (dict_set d k v))"
  by (simp add: dict_set_def distinct_update)

lemma length_dict_set_new:
  "map_of d k = None \<Longrightarrow> dict_set d k v = d @ [(k, v)]"
  unfolding dict_set_def by (induction d) (auto split: if_splits)

lemma chat_cases:
  "snd (chat agent C m) = C
   \<or> (map_of C (strip (lower m)) = None \<and> dict_len C < RESPONSE_CACHE_MAX_SIZE
       \<and> (\<exists>t. snd (chat agent C m) = C @ [(strip (lower m), t)]))"
  by (auto simp: chat_def Let_def length_dict_set_new split: option.splits sum.splits)

lemma chat_len: "dict_len C \<le> RESPONSE_CACHE_MAX_SIZE \<Longrightarrow>
    dict_len (snd (chat agent C m)) \<le> RESPONSE_CACHE_MAX_SIZE"
  using chat_cases [of agent C m] by (auto simp: dict_len_def)

lemma chat_distinct: "distinct (map fst C) \<Longrightarrow> distinct (map fst (snd (chat agent C m)))"
  using chat_cases [of agent C m] by (auto simp: map_of_eq_None_iff)

lemma chat_all_len: "dict_len C \<le> RESPONSE_CACHE_MAX_SIZE \<Longrightarrow>
    dict_len (chat_all agent C ms) \<le> RESPONSE_CACHE_MAX_SIZE"
  by (induction ms arbitrary: C) (simp_all add: chat_len)

lemma chat_all_distinct: "distinct (map fst C) \<Longrightarrow> distinct (map fst (chat_all agent C ms))"
  by (induction ms arbitrary: C) (simp_all add: chat_distinct)

text \<open>
  Claim C3.  Starting from the empty cache, after any sequence of calls of \<open>chat\<close> the
  response cache holds at most \<open>RESPONSE_CACHE_MAX_SIZE = 100\<close> entries (with distinct
  keys); a single call keeps the bound, and changes the cache only when its size was
  strictly below \<open>100\<close>.  At capacity, for a message whose key is not cached and that
  the agent answers, \<open>chat\<close> returns the computed answer and leaves the cache as it was.
\<close>

theorem response_cache_bounded:
  "dict_len (chat_all agent [] ms) \<le> 100
   \<and> distinct (map fst (chat_all agent [] ms))
   \<and> (dict_len C \<le> 100 \<longrightarrow> dict_len (snd (chat agent C m)) \<le> 100)
   \<and> (snd (chat agent C m) \<noteq> C \<longrightarrow> dict_len C < 100)
   \<and> (100 \<le> dict_len C \<and> map_of C (strip (lower m)) = None
        \<and> agent m = Inr response \<and> extract_text response = Inr answer
      \<longrightarrow> chat agent C m = (answer, C))"
proof (intro conjI impI)
  show "dict_len (chat_all agent [] ms) \<le> 100"
    using chat_all_len [of "[]" agent ms] by (simp add: dict_len_def RESPONSE_CACHE_MAX_SIZE_def)
  show "distinct (map fst (chat_all agent [] ms))"
    by (simp add: chat_all_distinct)
  show "dict_len (snd (chat agent C m)) \<le> 100" if "dict_len C \<le> 100"
    using that chat_len [of C agent m] by (simp add: RESPONSE_CACHE_MAX_SIZE_def)
  show "dict_len C < 100" if "snd (chat agent C m) \<noteq> C"
    using that chat_cases [of agent C m] by (auto simp: RESPONSE_CACHE_MAX_SIZE_def)
  show "chat agent C m = (answer, C)"
    if "100 \<le> dict_len C \<and> map_of C (strip (lower m)) = None
        \<and> agent m = Inr response \<and> extract_text response = Inr answer"
    using that by (simp add: chat_def RESPONSE_CACHE_MAX_SIZE_def)
qed

lemma len_cache_full: "dict_len cache_full = 100"
  by (simp add: cache_full_def dict_len_def)

lemma strip_lower_q: "strip (lower ''Q '') = ''q''"
  by (simp add: strip_def lower_def lower_char_def is_space_def)

lemma q_not_cached: "map_of cache_full ''q'' = None"
  by (auto simp: cache_full_def map_of_eq_None_iff image_iff Cons_replicate_eq)

text \<open>
  The statement at a cache of exactly 100 entries and the message \<open>Q\<close> (with a trailing
  blank), whose key \<open>q\<close> is new; and at the empty cache, which the same call extends.
\<close>

theorem response_cache_bounded_witness:
  "dict_len cache_full \<le> 100 \<and> 100 \<le> dict_len cache_full
   \<and> map_of cache_full (strip (lower ''Q '')) = None
   \<and> agent_answers ''Q '' = Inr \<lparr>message = None, str_of = ''answer to Q ''\<rparr>
   \<and> extract_text \<lparr>message = None, str_of = ''answer to Q ''\<rparr> = Inr (Some ''answer to Q '')
   \<and> chat agent_answers cache_full ''Q '' = (Some ''answer to Q '', cache_full)
   \<and> dict_len (snd (chat agent_answers cache_full ''Q '')) \<le> 100
   \<and> snd (chat agent_answers [] ''Q '') \<noteq> [] \<and> dict_len ([] :: (string, string option) dict) < 100"
proof -
  have h: "100 \<le> dict_len cache_full \<and> map_of cache_full (strip (lower ''Q '')) = None
        \<and> agent_answers ''Q '' = Inr \<lparr>message = None, str_of = ''answer to Q ''\<rparr>
        \<and> extract_text \<lparr>message = None, str_of = ''answer to Q ''\<rparr> = Inr (Some ''answer to Q '')"
    by (simp add: len_cache_full strip_lower_q q_not_cached agent_answers_def extract_text_def)
  have e: "snd (chat agent_answers [] ''Q '') \<noteq> []"
    by (simp add: chat_def agent_answers_def extract_text_def dict_len_def
        RESPONSE_CACHE_MAX_SIZE_def dict_set_def strip_lower_q)
  show ?thesis
    using h e len_cache_full
      response_cache_bounded [of agent_answers "[]" cache_full "''Q ''"
        "\<lparr>message = None, str_of = ''answer to Q ''\<rparr>" "Some ''answer to Q ''"]
      response_cache_bounded [of agent_answers "[]" "[]" "''Q ''"]
    by (simp add: dict_len_def)
qed

section \<open>The query cache\<close>





lemma map_of_dict_set_same: "map_of (dict_set d k v) k = Some v"
  by (simp add: dict_set_def update_conv')



lemma uit_fts_a: "uit_full_text_search uit_kb_a q n = Inr [doc_a\<lparr>mongo_id := None, score := None\<rparr>]"
  by (simp add: uit_full_text_search_def uit_kb_a_def)

lemma format_a:
  "format_items 1 [doc_a\<lparr>mongo_id := None, score := None\<rparr>] response_header = Inr answer_a"
  by (simp add: doc_a_def answer_a_def str_of_nat.simps)

lemma search_a_miss:
  "cache_hit C (cache_key_of md5 lw q) now = None \<Longrightarrow>
   search_uit_knowledge md5 lw (Some uit_kb_a) now now' C q
     = (answer_a, dict_set C (cache_key_of md5 lw q) \<lparr>result = answer_a, timestamp = now'\<rparr>)"
  using format_a by (simp add: search_uit_knowledge_def uit_fts_a)


section \<open>The key of the query cache\<close>

lemma strip_examples: "strip (lower '' a'') = ''a''" "strip (lower ''a'') = ''a''"
  by (simp_all add: strip_def lower_def lower_char_def is_space_def)

lemma strip_lower_examples: "lower '' a'' = '' a''" "lower ''a'' = ''a''" "lower ''A'' = ''a''"
  by (simp_all add: lower_def lower_char_def)

lemma cache_hit_fresh:
  "now - t < CACHE_TTL \<Longrightarrow>
   cache_hit (dict_set C k \<lparr>result = r, timestamp = t\<rparr>) k now = Some r"
  by (simp add: cache_hit_def map_of_dict_set_same)

text \<open>
  Claim C5 fails as stated.  The queries \<open>a\<close> and \<open>\<box>a\<close> are equal after lower-casing
  and trimming, yet their cache keys, the digests of the lower-cased untrimmed queries,
  differ: ten seconds after the first query was cached, the second is not served from
  that entry but writes an entry of its own.  (On these ASCII queries \<^verbatim>\<open>str.lower\<close> is
  \<open>lower\<close>, and \<open>md5_sample\<close> has their MD5 digests.)
\<close>

theorem query_cache_key_keeps_whitespace:
  "strip (lower '' a'') = strip (lower ''a'')
   \<and> cache_key_of md5_sample lower ''a'' = ''0cc175b9c0f1b6a831c399e269772661''
   \<and> cache_key_of md5_sample lower '' a'' = ''952988da97fbd8f2ea65990c03eac425''
   \<and> search_uit_knowledge md5_sample lower (Some uit_kb_a) 0 1 [] ''a''
       = (answer_a, [(''0cc175b9c0f1b6a831c399e269772661'', \<lparr>result = answer_a, timestamp = 1\<rparr>)])
   \<and> search_uit_knowledge md5_sample lower (Some uit_kb_a) 10 11
         [(''0cc175b9c0f1b6a831c399e269772661'', \<lparr>result = answer_a, timestamp = 1\<rparr>)] '' a''
       = (answer_a, [(''0cc175b9c0f1b6a831c399e269772661'', \<lparr>result = answer_a, timestamp = 1\<rparr>),
                     (''952988da97fbd8f2ea65990c03eac425'', \<lparr>result = answer_a, timestamp = 11\<rparr>)])"
proof -
  have k: "cache_key_of md5_sample lower ''a'' = ''0cc175b9c0f1b6a831c399e269772661''"
    "cache_key_of md5_sample lower '' a'' = ''952988da97fbd8f2ea65990c03eac425''"
    by (simp_all add: cache_key_of_def md5_sample_def strip_lower_examples)
  have e: "strip (lower '' a'') = strip (lower ''a'')"
    by (simp only: strip_examples)
  have m1: "cache_hit [] (cache_key_of md5_sample lower ''a'') 0 = None"
    by (simp add: cache_hit_def)
  have s1: "search_uit_knowledge md5_sample lower (Some uit_kb_a) 0 1 [] ''a''
       = (answer_a, [(''0cc175b9c0f1b6a831c399e269772661'', \<lparr>result = answer_a, timestamp = 1\<rparr>)])"
    unfolding search_a_miss [OF m1] by (simp add: k dict_set_def)
  have m2: "cache_hit [(''0cc175b9c0f1b6a831c399e269772661'', \<lparr>result = answer_a, timestamp = 1\<rparr>)]
      (cache_key_of md5_sample lower '' a'') 10 = None"
    by (simp add: cache_hit_def k)
  have s2: "search_uit_knowledge md5_sample lower (Some uit_kb_a) 10 11
         [(''0cc175b9c0f1b6a831c399e269772661'', \<lparr>result = answer_a, timestamp = 1\<rparr>)] '' a''
       = (answer_a, [(''0cc175b9c0f1b6a831c399e269772661'', \<lparr>result = answer_a, timestamp = 1\<rparr>),
                     (''952988da97fbd8f2ea65990c03eac425'', \<lparr>result = answer_a, timestamp = 11\<rparr>)])"
    unfolding search_a_miss [OF m2] by (simp add: k dict_set_def)
  from e k s1 s2 show ?thesis by (intro conjI)
qed

text \<open>
  Claim C5, amended.  The key is the digest of the lower-cased query, without trimming;
  this holds for whatever \<^verbatim>\<open>str.lower\<close> does (\<open>lw\<close>), so also beyond ASCII.  Two
  queries that are equal after lower-casing have the same key.  When the first misses
  the cache, its search finds at least one document and the results are formatted without
  an exception, the entry is written at time \<open>t1\<close>; the second query, looked up at a time
  \<open>t2\<close> with \<open>t2 - t1 < CACHE_TTL\<close>, is then answered from that entry, whatever the
  knowledge base would return, and the cache stays as it is.
\<close>

theorem query_cache_key_lowercase:
  "(lw q1 = lw q2 \<longrightarrow> cache_key_of md5 lw q1 = cache_key_of md5 lw q2)
   \<and> (lw q1 = lw q2 \<and> cache_hit C (cache_key_of md5 lw q1) t0 = None
        \<and> uit_full_text_search kb q1 3 = Inr rs \<and> rs \<noteq> []
        \<and> format_items 1 rs response_header = Inr resp \<and> t2 - t1 < CACHE_TTL
      \<longrightarrow> search_uit_knowledge md5 lw (Some kb) t0 t1 C q1
            = (resp, dict_set C (cache_key_of md5 lw q1) \<lparr>result = resp, timestamp = t1\<rparr>)
          \<and> search_uit_knowledge md5 lw (Some kb') t2 t3
              (dict_set C (cache_key_of md5 lw q1) \<lparr>result = resp, timestamp = t1\<rparr>) q2
            = (resp, dict_set C (cache_key_of md5 lw q1) \<lparr>result = resp, timestamp = t1\<rparr>))"
proof (intro conjI impI)
  show "cache_key_of md5 lw q1 = cache_key_of md5 lw q2" if "lw q1 = lw q2"
    using that by (simp add: cache_key_of_def)
next
  assume h: "lw q1 = lw q2 \<and> cache_hit C (cache_key_of md5 lw q1) t0 = None
        \<and> uit_full_text_search kb q1 3 = Inr rs \<and> rs \<noteq> []
        \<and> format_items 1 rs response_header = Inr resp \<and> t2 - t1 < CACHE_TTL"
  then show "search_uit_knowledge md5 lw (Some kb) t0 t1 C q1
            = (resp, dict_set C (cache_key_of md5 lw q1) \<lparr>result = resp, timestamp = t1\<rparr>)"
    by (simp add: search_uit_knowledge_def)
  have "cache_key_of md5 lw q2 = cache_key_of md5 lw q1"
    using h by (simp add: cache_key_of_def)
  moreover have "cache_hit (dict_set C (cache_key_of md5 lw q1) \<lparr>result = resp, timestamp = t1\<rparr>)
      (cache_key_of md5 lw q1) t2 = Some resp"
    using h by (simp add: cache_hit_fresh)
  ultimately show "search_uit_knowledge md5 lw (Some kb') t2 t3
              (dict_set C (cache_key_of md5 lw q1) \<lparr>result = resp, timestamp = t1\<rparr>) q2
            = (resp, dict_set C (cache_key_of md5 lw q1) \<lparr>result = resp, timestamp = t1\<rparr>)"
    by (simp add: search_uit_knowledge_def)
qed

text \<open>
  The amended statement at the queries \<open>A\<close> and \<open>a\<close>; the second query meets a
  knowledge base that finds nothing and still gets the cached answer.
\<close>

theorem query_cache_key_lowercase_witness:
  "lower ''A'' = lower ''a'' \<and> cache_hit [] (cache_key_of md5_sample lower ''A'') 0 = None
   \<and> uit_full_text_search uit_kb_a ''A'' 3 = Inr [doc_a\<lparr>mongo_id := None, score := None\<rparr>]
   \<and> format_items 1 [doc_a\<lparr>mongo_id := None, score := None\<rparr>] response_header = Inr answer_a
   \<and> (3000::real) - 1 < CACHE_TTL
   \<and> cache_key_of md5_sample lower ''A'' = cache_key_of md5_sample lower ''a''
   \<and> search_uit_knowledge md5_sample lower (Some uit_kb_a) 0 1 [] ''A''
       = (answer_a, [(''0cc175b9c0f1b6a831c399e269772661'', \<lparr>result = answer_a, timestamp = 1\<rparr>)])
   \<and> search_uit_knowledge md5_sample lower (Some uit_kb_nothing) 3000 3001
         [(''0cc175b9c0f1b6a831c399e269772661'', \<lparr>result = answer_a, timestamp = 1\<rparr>)] ''a''
       = (answer_a, [(''0cc175b9c0f1b6a831c399e269772661'', \<lparr>result = answer_a, timestamp = 1\<rparr>)])"
proof -
  have h1: "lower ''A'' = lower ''a''" "cache_hit [] (cache_key_of md5_sample lower ''A'') 0 = None"
    "uit_full_text_search uit_kb_a ''A'' 3 = Inr [doc_a\<lparr>mongo_id := None, score := None\<rparr>]"
    by (simp_all add: strip_lower_examples cache_hit_def uit_fts_a)
  have h2: "format_items 1 [doc_a\<lparr>mongo_id := None, score := None\<rparr>] response_header = Inr answer_a"
    by (rule format_a)
  have h3: "(3000::real) - 1 < CACHE_TTL"
    by (simp add: CACHE_TTL_def)
  note h = h1 h2 h3
  have k: "cache_key_of md5_sample lower ''A'' = ''0cc175b9c0f1b6a831c399e269772661''"
    by (simp add: cache_key_of_def md5_sample_def strip_lower_examples)
  have d: "dict_set [] (cache_key_of md5_sample lower ''A'') \<lparr>result = answer_a, timestamp = 1\<rparr>
      = [(''0cc175b9c0f1b6a831c399e269772661'', \<lparr>result = answer_a, timestamp = 1\<rparr>)]"
    by (simp add: k dict_set_def)
  note T = query_cache_key_lowercase [where ?q1.0 = "''A''" and ?q2.0 = "''a''" and C = "[]"
        and ?md5.0 = md5_sample and lw = lower and ?t0.0 = 0 and ?t1.0 = 1 and ?t2.0 = 3000 and ?t3.0 = 3001
        and kb = uit_kb_a and kb' = uit_kb_nothing
        and rs = "[doc_a\<lparr>mongo_id := None, score := None\<rparr>]" and resp = answer_a]
  have ne: "[doc_a\<lparr>mongo_id := None, score := None\<rparr>] \<noteq> []" by simp
  have hyp: "lower ''A'' = lower ''a'' \<and> cache_hit [] (cache_key_of md5_sample lower ''A'') 0 = None
        \<and> uit_full_text_search uit_kb_a ''A'' 3 = Inr [doc_a\<lparr>mongo_id := None, score := None\<rparr>]
        \<and> [doc_a\<lparr>mongo_id := None, score := None\<rparr>] \<noteq> []
        \<and> format_items 1 [doc_a\<lparr>mongo_id := None, score := None\<rparr>] response_header = Inr answer_a
        \<and> (3000::real) - 1 < CACHE_TTL"
    using h1 ne h2 h3 by (intro conjI)
  from T h1(1) have same: "cache_key_of md5_sample lower ''A'' = cache_key_of md5_sample lower ''a''"
    by blast
  from T hyp have "search_uit_knowledge md5_sample lower (Some uit_kb_a) 0 1 [] ''A''
            = (answer_a, dict_set [] (cache_key_of md5_sample lower ''A'') \<lparr>result = answer_a, timestamp = 1\<rparr>)
          \<and> search_uit_knowledge md5_sample lower (Some uit_kb_nothing) 3000 3001
              (dict_set [] (cache_key_of md5_sample lower ''A'') \<lparr>result = answer_a, timestamp = 1\<rparr>) ''a''
            = (answer_a, dict_set [] (cache_key_of md5_sample lower ''A'') \<lparr>result = answer_a, timestamp = 1\<rparr>)"
    by blast
  then have runs: "search_uit_knowledge md5_sample lower (Some uit_kb_a) 0 1 [] ''A''
       = (answer_a, [(''0cc175b9c0f1b6a831c399e269772661'', \<lparr>result = answer_a, timestamp = 1\<rparr>)])"
    "search_uit_knowledge md5_sample lower (Some uit_kb_nothing) 3000 3001
         [(''0cc175b9c0f1b6a831c399e269772661'', \<lparr>result = answer_a, timestamp = 1\<rparr>)] ''a''
       = (answer_a, [(''0cc175b9c0f1b6a831c399e269772661'', \<lparr>result = answer_a, timestamp = 1\<rparr>)])"
    unfolding d by blast+
  from h1 h2 h3 same runs show ?thesis by (intro conjI)
qed

end
